theory Spec2Isabelle
  imports Main "HOL-Library.Multiset"
begin

section \<open>Strings\<close>

text \<open>
  The TypeScript sources work on JavaScript strings. They are embedded as \<open>string\<close>
  (lists of \<open>char\<close>), one \<open>char\<close> per code unit; the SQL text, type names and
  identifiers the adapters and the validator look at are ASCII. \<open>toUpperCase\<close>
  maps the ASCII letters a-z to A-Z and leaves every other character as it is, which is
  what \<open>String.prototype.toUpperCase\<close> does on ASCII text and not beyond it (it turns
  the sharp s into \<open>SS\<close>). What is claimed of every JavaScript string is stated on the
  embedding over code units, in the last section of the definitions.
\<close>

definition toUpperChar :: "char \<Rightarrow> char" where
  "toUpperChar c =
     (case map_of (zip ''abcdefghijklmnopqrstuvwxyz'' ''ABCDEFGHIJKLMNOPQRSTUVWXYZ'') c of
        Some u \<Rightarrow> u
      | None \<Rightarrow> c)"

definition toUpperCase :: "string \<Rightarrow> string" where
  "toUpperCase s = map toUpperChar s"

text \<open>White space as \<open>String.prototype.trim\<close> and the regular expression class
  \<open>\s\<close> see it: tab, line feed, vertical tab, form feed, carriage return, space and
  the no-break space.\<close>

definition isSpace :: "char \<Rightarrow> bool" where
  "isSpace c = (c \<in> set [CHR 0x09, CHR 0x0A, CHR 0x0B, CHR 0x0C, CHR 0x0D, CHR 0x20, CHR 0xA0])"

definition trim :: "string \<Rightarrow> string" where
  "trim s = rev (dropWhile isSpace (rev (dropWhile isSpace s)))"

fun startsWith :: "'a list \<Rightarrow> 'a list \<Rightarrow> bool" where
  "startsWith s [] = True"
| "startsWith [] (p # ps) = False"
| "startsWith (c # cs) (p # ps) = (c = p \<and> startsWith cs ps)"

fun includesStr :: "'a list \<Rightarrow> 'a list \<Rightarrow> bool" where
  "includesStr [] sub = (sub = [])"
| "includesStr (c # cs) sub = (startsWith (c # cs) sub \<or> includesStr cs sub)"

text \<open>\<open>s.split(sep)\<close> for a one-character separator: the pieces between the
  separators, so a string without separator gives the one-element list of itself (also
  when it is empty).\<close>

fun split :: "'a \<Rightarrow> 'a list \<Rightarrow> 'a list list" where
  "split sep [] = [[]]"
| "split sep (c # cs) =
     (if c = sep then [] # split sep cs
      else (case split sep cs of
              p # ps \<Rightarrow> (c # p) # ps
            | [] \<Rightarrow> [[c]]))"

section \<open>Errors\<close>

text \<open>Every \<open>throw new Error(msg)\<close> is the value \<open>Error msg\<close>; calling a method
  on the \<open>null\<close> pool is the \<open>TypeError\<close> JavaScript raises there.\<close>

datatype error = Error string | TypeError

section \<open>BaseDatabaseClient\<close>

text \<open>\<open>normalizeMaxRows(maxRows?: number)\<close>: an absent argument is \<open>None\<close>;
  \<open>!maxRows\<close> holds for an absent argument and for 0.\<close>

definition defaultMaxRows :: int where
  "defaultMaxRows = 1000"

definition absoluteMaxRows :: int where
  "absoluteMaxRows = 10000"

definition normalizeMaxRows :: "int option \<Rightarrow> int" where
  "normalizeMaxRows maxRows =
     (case maxRows of
        None \<Rightarrow> defaultMaxRows
      | Some n \<Rightarrow>
          if n = 0 then defaultMaxRows
          else if n < 0 then defaultMaxRows
          else if n > absoluteMaxRows then absoluteMaxRows
          else n)"

record TableName =
  schema :: string
  table :: string

text \<open>\<open>parseTableName\<close>: \<open>parts[0]\<close> of the last branch always exists, since
  \<open>split\<close> never returns the empty list.\<close>

definition parseTableName :: "string \<Rightarrow> TableName" where
  "parseTableName tableName =
     (let parts = split CHR ''.'' tableName in
      if length parts = 2 then \<lparr>schema = parts ! 0, table = parts ! 1\<rparr>
      else \<lparr>schema = ''public'', table = (case parts of p # _ \<Rightarrow> p | [] \<Rightarrow> [])\<rparr>)"

definition ensureConnected :: "bool \<Rightarrow> error + unit" where
  "ensureConnected connected =
     (if \<not> connected then Inl (Error ''Database client is not connected. Call connect() first.'')
      else Inr ())"

section \<open>Column type mapping\<close>

text \<open>The type constants of the MySQL driver and the type OIDs of PostgreSQL are
  integers; \<open>typeMap[type] || 'unknown'\<close> is a lookup in the table with a default
  (no entry of either table is the empty string).\<close>

definition mysqlTypeMap :: "(int \<times> string) list" where
  "mysqlTypeMap =
     [(0, ''decimal''), (1, ''tiny''), (2, ''short''), (3, ''long''), (4, ''float''),
      (5, ''double''), (7, ''timestamp''), (8, ''longlong''), (9, ''int24''), (10, ''date''),
      (11, ''time''), (12, ''datetime''), (13, ''year''), (15, ''varchar''), (16, ''bit''),
      (245, ''json''), (246, ''decimal''), (247, ''enum''), (248, ''set''),
      (249, ''tiny_blob''), (250, ''medium_blob''), (251, ''long_blob''), (252, ''blob''),
      (253, ''var_string''), (254, ''string''), (255, ''geometry'')]"

definition mapMySQLType :: "int option \<Rightarrow> string" where
  "mapMySQLType type =
     (case type of
        None \<Rightarrow> ''unknown''
      | Some t \<Rightarrow>
          (case map_of mysqlTypeMap t of
             Some name \<Rightarrow> if name = [] then ''unknown'' else name
           | None \<Rightarrow> ''unknown''))"

definition pgTypeMap :: "(int \<times> string) list" where
  "pgTypeMap =
     [(16, ''boolean''), (17, ''bytea''), (20, ''bigint''), (21, ''smallint''),
      (23, ''integer''), (25, ''text''), (700, ''real''), (701, ''double precision''),
      (1042, ''character''), (1043, ''varchar''), (1082, ''date''), (1083, ''time''),
      (1114, ''timestamp''), (1184, ''timestamptz''), (2950, ''uuid''), (3802, ''jsonb'')]"

definition mapPostgreSQLType :: "int \<Rightarrow> string" where
  "mapPostgreSQLType oid =
     (case map_of pgTypeMap oid of
        Some name \<Rightarrow> if name = [] then ''unknown'' else name
      | None \<Rightarrow> ''unknown'')"

definition normalizeSQLiteType :: "string \<Rightarrow> string" where
  "normalizeSQLiteType sqliteType =
     (let type = toUpperCase sqliteType in
      if includesStr type ''INT'' then ''integer''
      else if includesStr type ''CHAR'' \<or> includesStr type ''TEXT'' \<or> includesStr type ''CLOB''
        then ''text''
      else if includesStr type ''REAL'' \<or> includesStr type ''FLOA'' \<or> includesStr type ''DOUB''
        then ''real''
      else if includesStr type ''BLOB'' then ''blob''
      else if includesStr type ''NUMERIC'' \<or> includesStr type ''DECIMAL'' then ''numeric''
      else if includesStr type ''BOOL'' then ''boolean''
      else if includesStr type ''DATE'' \<or> includesStr type ''TIME'' then ''datetime''
      else ''blob'')"

text \<open>The substrings \<open>normalizeSQLiteType\<close> looks for, and the categories it can
  answer.\<close>

definition sqliteTypeKeywords :: "string list" where
  "sqliteTypeKeywords =
     [''INT'', ''CHAR'', ''TEXT'', ''CLOB'', ''REAL'', ''FLOA'', ''DOUB'', ''BLOB'',
      ''NUMERIC'', ''DECIMAL'', ''BOOL'', ''DATE'', ''TIME'']"

definition sqliteCategories :: "string list" where
  "sqliteCategories =
     [''integer'', ''text'', ''real'', ''blob'', ''numeric'', ''boolean'', ''datetime'']"

section \<open>query\<close>

text \<open>
  \<open>query\<close> talks to the engine through its driver. What the driver answers is an
  argument of the model: \<open>Inl msg\<close> when the driver call throws with message
  \<open>msg\<close>, \<open>Inr reply\<close> when it returns. The plan asked for with
  \<open>options.explain\<close> is the outcome of the adapter's own \<open>explain\<close> call, given the
  same way. The elapsed time of the result is not modelled.
\<close>

record QueryOptions =
  maxRows :: "int option"
  explain :: bool

record ('row, 'plan) QueryResult =
  rows :: "'row list"
  rowCount :: int
  fieldInfo :: "(string \<times> string) list"
  explainPlan :: "'plan option"

record 'row MySQLReply =
  mysql_rows :: "'row list"
  mysql_fields :: "(string \<times> int option) list"

definition withExplainPlan ::
  "QueryOptions \<Rightarrow> (string + 'plan) \<Rightarrow> ('row, 'plan) QueryResult \<Rightarrow>
   error + ('row, 'plan) QueryResult" where
  "withExplainPlan options explained queryResult =
     (if explain options then
        (case explained of
           Inl msg \<Rightarrow> Inl (Error (''Query execution failed: '' @ msg))
         | Inr plan \<Rightarrow> Inr (queryResult\<lparr>explainPlan := Some plan\<rparr>))
      else Inr queryResult)"

definition MySQLClient_query ::
  "bool \<Rightarrow> QueryOptions \<Rightarrow> (string + 'row MySQLReply) \<Rightarrow> (string + 'plan) \<Rightarrow>
   error + ('row, 'plan) QueryResult" where
  "MySQLClient_query connected options driver explained =
     (case ensureConnected connected of
        Inl e \<Rightarrow> Inl e
      | Inr _ \<Rightarrow>
          let maxRows = normalizeMaxRows (maxRows options) in
          (case driver of
             Inl msg \<Rightarrow> Inl (Error (''Query execution failed: '' @ msg))
           | Inr reply \<Rightarrow>
               let limitedRows = take (nat maxRows) (mysql_rows reply) in
               withExplainPlan options explained
                 \<lparr>rows = limitedRows,
                  rowCount = int (length (mysql_rows reply)),
                  fieldInfo = map (\<lambda>(name, type). (name, mapMySQLType type)) (mysql_fields reply),
                  explainPlan = None\<rparr>))"

text \<open>The SQLite statement handle: \<open>all()\<close> answers the rows, \<open>run()\<close> the
  number of changes, \<open>columns()\<close> the column names with their declared type
  (\<open>None\<close> for \<open>null\<close>).\<close>

record 'row SQLiteStatement =
  stmt_all :: "string + 'row list"
  stmt_run :: "string + int"
  stmt_columns :: "(string \<times> string option) list"

definition SQLiteClient_query ::
  "bool \<Rightarrow> string \<Rightarrow> QueryOptions \<Rightarrow> (string + 'row SQLiteStatement) \<Rightarrow>
   (string + 'plan) \<Rightarrow> error + ('row, 'plan) QueryResult" where
  "SQLiteClient_query connected query options prepared explained =
     (case ensureConnected connected of
        Inl e \<Rightarrow> Inl e
      | Inr _ \<Rightarrow>
          let maxRows = normalizeMaxRows (maxRows options) in
          (case prepared of
             Inl msg \<Rightarrow> Inl (Error (''Query execution failed: '' @ msg))
           | Inr stmt \<Rightarrow>
               let isSelect = startsWith (toUpperCase (trim query)) ''SELECT'' in
               (case (if isSelect
                      then (case stmt_all stmt of
                              Inl msg \<Rightarrow> Inl msg
                            | Inr rs \<Rightarrow> Inr (take (nat maxRows) rs, int (length rs)))
                      else (case stmt_run stmt of
                              Inl msg \<Rightarrow> Inl msg
                            | Inr changes \<Rightarrow> Inr ([], changes))) of
                  Inl msg \<Rightarrow> Inl (Error (''Query execution failed: '' @ msg))
                | Inr (rs, n) \<Rightarrow>
                    let columns = (if isSelect then stmt_columns stmt else []) in
                    withExplainPlan options explained
                      \<lparr>rows = rs,
                       rowCount = n,
                       fieldInfo = map (\<lambda>(name, type).
                                  (name, case type of
                                           None \<Rightarrow> ''unknown''
                                         | Some t \<Rightarrow> if t = [] then ''unknown'' else t))
                                  columns,
                       explainPlan = None\<rparr>)))"

text \<open>The PostgreSQL driver reports its own \<open>rowCount\<close>, which may be
  \<open>null\<close>; \<open>result.rowCount || 0\<close> turns \<open>null\<close> into 0. The table and column
  identifiers of a field are not modelled.\<close>

record 'row PgReply =
  pg_rows :: "'row list"
  pg_rowCount :: "int option"
  pg_fields :: "(string \<times> int) list"

definition PostgreSQLClient_query ::
  "bool \<Rightarrow> QueryOptions \<Rightarrow> (string + 'row PgReply) \<Rightarrow> (string + 'plan) \<Rightarrow>
   error + ('row, 'plan) QueryResult" where
  "PostgreSQLClient_query connected options driver explained =
     (case ensureConnected connected of
        Inl e \<Rightarrow> Inl e
      | Inr _ \<Rightarrow>
          let maxRows = normalizeMaxRows (maxRows options) in
          (case driver of
             Inl msg \<Rightarrow> Inl (Error (''Query execution failed: '' @ msg))
           | Inr result \<Rightarrow>
               let rs = take (nat maxRows) (pg_rows result) in
               withExplainPlan options explained
                 \<lparr>rows = rs,
                  rowCount = (case pg_rowCount result of None \<Rightarrow> 0 | Some n \<Rightarrow> n),
                  fieldInfo = map (\<lambda>(name, dataTypeID). (name, mapPostgreSQLType dataTypeID))
                             (pg_fields result),
                  explainPlan = None\<rparr>))"

section \<open>MySQLClient.getTableStatistics\<close>

text \<open>
  The rows of \<open>information_schema.TABLES\<close> are an argument of the model
  (\<open>None\<close>: the pool is \<open>null\<close>); the \<open>WHERE TABLE_SCHEMA = ? AND TABLE_NAME = ?\<close>
  of the statement selects among them with the two bound parameters.
\<close>

record TablesRow =
  TABLE_SCHEMA :: string
  TABLE_NAME :: string
  TABLE_ROWS :: int
  DATA_LENGTH :: int
  INDEX_LENGTH :: int

record TableStatistics =
  tableName :: string
  statRowCount :: int
  sizeBytes :: int
  indexSizeBytes :: int

definition selectTables :: "TablesRow list \<Rightarrow> string \<times> string \<Rightarrow> TablesRow list" where
  "selectTables catalog params =
     filter (\<lambda>r. TABLE_SCHEMA r = fst params \<and> TABLE_NAME r = snd params) catalog"

definition getTableStatistics_params :: "string \<Rightarrow> string \<times> string" where
  "getTableStatistics_params name =
     (let parsed = parseTableName name in
      (if schema parsed = [] then ''public'' else schema parsed, table parsed))"

definition MySQLClient_getTableStatistics ::
  "TablesRow list option \<Rightarrow> string \<Rightarrow> error + TableStatistics" where
  "MySQLClient_getTableStatistics pool name =
     (let parsed = parseTableName name in
      case pool of
        None \<Rightarrow> Inl TypeError
      | Some catalog \<Rightarrow>
          (case selectTables catalog (getTableStatistics_params name) of
             [] \<Rightarrow> Inl (Error (''Table '' @ name @ '' not found''))
           | stats # _ \<Rightarrow>
               Inr \<lparr>tableName = table parsed,
                    statRowCount = TABLE_ROWS stats,
                    sizeBytes = DATA_LENGTH stats,
                    indexSizeBytes = INDEX_LENGTH stats\<rparr>))"

section \<open>Grouping catalog rows\<close>

text \<open>
  The adapters group multi-row catalog results in a JavaScript \<open>Map\<close>, which keeps
  its keys in insertion order: an association list, where \<open>set\<close> on a present key
  replaces the value in place and on a new key appends the entry.
\<close>

definition Map_has :: "('k \<times> 'v) list \<Rightarrow> 'k \<Rightarrow> bool" where
  "Map_has m k = (map_of m k \<noteq> None)"

definition Map_get :: "('k \<times> 'v) list \<Rightarrow> 'k \<Rightarrow> 'v option" where
  "Map_get m k = map_of m k"

fun Map_set :: "('k \<times> 'v) list \<Rightarrow> 'k \<Rightarrow> 'v \<Rightarrow> ('k \<times> 'v) list" where
  "Map_set [] k v = [(k, v)]"
| "Map_set ((k', v') # m) k v =
     (if k' = k then (k, v) # m else (k', v') # Map_set m k v)"

definition Map_values :: "('k \<times> 'v) list \<Rightarrow> 'v list" where
  "Map_values m = map snd m"

subsection \<open>MySQLClient.introspectIndexes\<close>

text \<open>One row of \<open>information_schema.STATISTICS\<close> as the statement selects it;
  \<open>COLLATION\<close> is \<open>'A'\<close>, \<open>'D'\<close> or \<open>NULL\<close>.\<close>

record StatisticsRow =
  INDEX_NAME :: string
  NON_UNIQUE :: int
  COLUMN_NAME :: string
  SEQ_IN_INDEX :: int
  COLLATION :: "string option"
  INDEX_TYPE :: string
  is_primary :: int

datatype SortOrder = ASC | DESC

record IndexColumn =
  col_name :: string
  col_order :: SortOrder

record IndexSchema =
  idx_name :: string
  idx_columns :: "IndexColumn list"
  isUnique :: bool
  isPrimary :: bool
  idx_type :: string

text \<open>The two object literals of the loop: the entry created for an index at its
  first row, and the column pushed for every row.\<close>

definition newIndex :: "StatisticsRow \<Rightarrow> IndexSchema" where
  "newIndex row =
     \<lparr>idx_name = INDEX_NAME row,
      idx_columns = [],
      isUnique = (NON_UNIQUE row = 0),
      isPrimary = (is_primary row = 1),
      idx_type = INDEX_TYPE row\<rparr>"

definition indexColumn :: "StatisticsRow \<Rightarrow> IndexColumn" where
  "indexColumn row =
     \<lparr>col_name = COLUMN_NAME row,
      col_order = (if COLLATION row = Some ''A'' then ASC else DESC)\<rparr>"

text \<open>The body of the loop over the rows: create the entry of the index at its first
  row, then push the row's column onto the entry (the object in the map is mutated, so
  the entry keeps its place).\<close>

definition indexMap_step ::
  "(string \<times> IndexSchema) list \<Rightarrow> StatisticsRow \<Rightarrow> (string \<times> IndexSchema) list" where
  "indexMap_step indexMap row =
     (let indexMap1 =
        (if \<not> Map_has indexMap (INDEX_NAME row)
         then Map_set indexMap (INDEX_NAME row) (newIndex row)
         else indexMap)
      in case Map_get indexMap1 (INDEX_NAME row) of
           Some index \<Rightarrow>
             Map_set indexMap1 (INDEX_NAME row)
               (index\<lparr>idx_columns := idx_columns index @ [indexColumn row]\<rparr>)
         | None \<Rightarrow> indexMap1)"

definition MySQLClient_introspectIndexes :: "StatisticsRow list \<Rightarrow> IndexSchema list" where
  "MySQLClient_introspectIndexes catalogRows = Map_values (foldl indexMap_step [] catalogRows)"

subsection \<open>introspectForeignKeys\<close>

record ForeignKeyConstraint =
  fk_name :: string
  fk_columns :: "string list"
  referencedTable :: string
  referencedSchema :: string
  referencedColumns :: "string list"
  onDelete :: string
  onUpdate :: string

text \<open>MySQL: one row of \<open>KEY_COLUMN_USAGE\<close> joined with
  \<open>REFERENTIAL_CONSTRAINTS\<close>.\<close>

record KeyColumnUsageRow =
  CONSTRAINT_NAME :: string
  kcu_COLUMN_NAME :: string
  REFERENCED_TABLE_SCHEMA :: string
  REFERENCED_TABLE_NAME :: string
  REFERENCED_COLUMN_NAME :: string
  UPDATE_RULE :: string
  DELETE_RULE :: string

text \<open>The last two statements of every foreign-key loop: push the local and the
  referenced column onto the constraint found under the key.\<close>

definition fk_push ::
  "('k \<times> ForeignKeyConstraint) list \<Rightarrow> 'k \<Rightarrow> string \<Rightarrow> string \<Rightarrow>
   ('k \<times> ForeignKeyConstraint) list" where
  "fk_push fkMap key column referencedColumn =
     (case Map_get fkMap key of
        Some fk \<Rightarrow>
          Map_set fkMap key
            (fk\<lparr>fk_columns := fk_columns fk @ [column],
                referencedColumns := referencedColumns fk @ [referencedColumn]\<rparr>)
      | None \<Rightarrow> fkMap)"

definition mysql_newForeignKey :: "KeyColumnUsageRow \<Rightarrow> ForeignKeyConstraint" where
  "mysql_newForeignKey row =
     \<lparr>fk_name = CONSTRAINT_NAME row,
      fk_columns = [],
      referencedTable = REFERENCED_TABLE_NAME row,
      referencedSchema = REFERENCED_TABLE_SCHEMA row,
      referencedColumns = [],
      onDelete = DELETE_RULE row,
      onUpdate = UPDATE_RULE row\<rparr>"

definition mysql_fkMap_step ::
  "(string \<times> ForeignKeyConstraint) list \<Rightarrow> KeyColumnUsageRow \<Rightarrow>
   (string \<times> ForeignKeyConstraint) list" where
  "mysql_fkMap_step fkMap row =
     (let fkMap1 =
        (if \<not> Map_has fkMap (CONSTRAINT_NAME row)
         then Map_set fkMap (CONSTRAINT_NAME row) (mysql_newForeignKey row)
         else fkMap)
      in fk_push fkMap1 (CONSTRAINT_NAME row) (kcu_COLUMN_NAME row) (REFERENCED_COLUMN_NAME row))"

definition MySQLClient_introspectForeignKeys ::
  "KeyColumnUsageRow list \<Rightarrow> ForeignKeyConstraint list" where
  "MySQLClient_introspectForeignKeys catalogRows = Map_values (foldl mysql_fkMap_step [] catalogRows)"

text \<open>SQLite: one row of \<open>PRAGMA foreign_key_list\<close>; the key of the map is the
  numeric \<open>id\<close>, which the constraint name prints in decimal.\<close>

record ForeignKeyListRow =
  fkl_id :: int
  fkl_seq :: int
  fkl_table :: string
  fkl_from :: string
  fkl_to :: string
  fkl_on_update :: string
  fkl_on_delete :: string
  fkl_match :: string

fun natToString :: "nat \<Rightarrow> string" where
  "natToString n =
     (if n < 10 then [''0123456789'' ! n]
      else natToString (n div 10) @ [''0123456789'' ! (n mod 10)])"

definition numberToString :: "int \<Rightarrow> string" where
  "numberToString i = (if i < 0 then CHR ''-'' # natToString (nat (- i)) else natToString (nat i))"

definition sqlite_newForeignKey :: "string \<Rightarrow> ForeignKeyListRow \<Rightarrow> ForeignKeyConstraint" where
  "sqlite_newForeignKey tbl fk =
     \<lparr>fk_name = ''fk_'' @ tbl @ ''_'' @ numberToString (fkl_id fk),
      fk_columns = [],
      referencedTable = fkl_table fk,
      referencedSchema = ''main'',
      referencedColumns = [],
      onDelete = fkl_on_delete fk,
      onUpdate = fkl_on_update fk\<rparr>"

definition sqlite_fkMap_step ::
  "string \<Rightarrow> (int \<times> ForeignKeyConstraint) list \<Rightarrow> ForeignKeyListRow \<Rightarrow>
   (int \<times> ForeignKeyConstraint) list" where
  "sqlite_fkMap_step tbl fkMap fk =
     (let fkMap1 =
        (if \<not> Map_has fkMap (fkl_id fk)
         then Map_set fkMap (fkl_id fk) (sqlite_newForeignKey tbl fk)
         else fkMap)
      in fk_push fkMap1 (fkl_id fk) (fkl_from fk) (fkl_to fk))"

definition SQLiteClient_introspectForeignKeys ::
  "string \<Rightarrow> ForeignKeyListRow list \<Rightarrow> ForeignKeyConstraint list" where
  "SQLiteClient_introspectForeignKeys tbl fks = Map_values (foldl (sqlite_fkMap_step tbl) [] fks)"

text \<open>PostgreSQL: one row of the join over the \<open>information_schema\<close> constraint
  views.\<close>

record PgForeignKeyRow =
  constraint_name :: string
  column_name :: string
  foreign_table_schema :: string
  foreign_table_name :: string
  foreign_column_name :: string
  update_rule :: string
  delete_rule :: string

definition pg_newForeignKey :: "PgForeignKeyRow \<Rightarrow> ForeignKeyConstraint" where
  "pg_newForeignKey row =
     \<lparr>fk_name = constraint_name row,
      fk_columns = [],
      referencedTable = foreign_table_name row,
      referencedSchema = foreign_table_schema row,
      referencedColumns = [],
      onDelete = delete_rule row,
      onUpdate = update_rule row\<rparr>"

definition pg_fkMap_step ::
  "(string \<times> ForeignKeyConstraint) list \<Rightarrow> PgForeignKeyRow \<Rightarrow>
   (string \<times> ForeignKeyConstraint) list" where
  "pg_fkMap_step fkMap row =
     (let fkMap1 =
        (if \<not> Map_has fkMap (constraint_name row)
         then Map_set fkMap (constraint_name row) (pg_newForeignKey row)
         else fkMap)
      in fk_push fkMap1 (constraint_name row) (column_name row) (foreign_column_name row))"

definition PostgreSQLClient_introspectForeignKeys ::
  "PgForeignKeyRow list \<Rightarrow> ForeignKeyConstraint list" where
  "PostgreSQLClient_introspectForeignKeys catalogRows = Map_values (foldl pg_fkMap_step [] catalogRows)"

text \<open>The cardinality invariant of a foreign key: as many local as referenced
  columns.\<close>

definition fk_balanced :: "ForeignKeyConstraint \<Rightarrow> bool" where
  "fk_balanced fk = (length (fk_columns fk) = length (referencedColumns fk))"

section \<open>PostgreSQLClient.generateRecommendations\<close>

text \<open>
  A node of the JSON plan, with the keys the recommendation pass reads: \<open>Node Type\<close>,
  \<open>Plan Rows\<close>, \<open>Relation Name\<close> (absent on nodes that scan no relation; the
  template string then prints \<open>undefined\<close>) and the children under \<open>Plans\<close> (an
  absent \<open>Plans\<close> is the empty list).
\<close>

datatype Plan = Plan (Node_Type: string) (Plan_Rows: int) (Relation_Name: "string option")
  (Plans: "Plan list")

definition seqScanAdvice :: "string option \<Rightarrow> string" where
  "seqScanAdvice relation =
     ''Consider adding an index on ''
       @ (case relation of Some r \<Rightarrow> r | None \<Rightarrow> ''undefined'')
       @ '' to avoid sequential scan''"

definition nestedLoopAdvice :: string where
  "nestedLoopAdvice =
     ''Nested loop with high row count detected. Consider using a hash join instead.''"

fun generateRecommendations :: "Plan \<Rightarrow> string list" where
  "generateRecommendations (Plan nodeType planRows relation children) =
     (if nodeType = ''Seq Scan'' \<and> planRows > 1000 then [seqScanAdvice relation] else [])
     @ (if nodeType = ''Nested Loop'' \<and> planRows > 10000 then [nestedLoopAdvice] else [])
     @ concat (map generateRecommendations children)"

text \<open>The nodes of a plan in pre-order: a node before its children, the children in
  the order of \<open>Plans\<close>.\<close>

fun preorder :: "Plan \<Rightarrow> Plan list" where
  "preorder (Plan nodeType planRows relation children) =
     Plan nodeType planRows relation children # concat (map preorder children)"

definition needsIndex :: "Plan \<Rightarrow> bool" where
  "needsIndex node = (Node_Type node = ''Seq Scan'' \<and> Plan_Rows node > 1000)"

text \<open>What the two checks at the head of \<open>generateRecommendations\<close> push for one
  node, children aside.\<close>

definition nodeAdvice :: "Plan \<Rightarrow> string list" where
  "nodeAdvice node =
     (if Node_Type node = ''Seq Scan'' \<and> Plan_Rows node > 1000
      then [seqScanAdvice (Relation_Name node)] else [])
     @ (if Node_Type node = ''Nested Loop'' \<and> Plan_Rows node > 10000
        then [nestedLoopAdvice] else [])"

section \<open>Regular expressions\<close>

text \<open>
  The validator matches its query against regular expression literals, all of them with
  the flag \<open>i\<close>. The embedding has the constructs these literals use: a literal
  character (compared without regard to the case of ASCII letters, as the flag asks), the
  classes \<open>\s\<close>, \<open>\w\<close>, \<open>\d\<close>, \<open>[a-z]\<close> (under \<open>i\<close>: the ASCII letters),
  \<open>.\<close> and bracket classes made of them; the greedy quantifiers \<open>*\<close>, \<open>+\<close>
  and \<open>?\<close>, which the literals only apply to one-character matchers; the assertions
  \<open>\b\<close> and \<open>$\<close>; sequence, alternation and one capturing group.
\<close>

definition isWordChar :: "char \<Rightarrow> bool" where
  "isWordChar c =
     (c \<in> set ''abcdefghijklmnopqrstuvwxyzABCDEFGHIJKLMNOPQRSTUVWXYZ0123456789_'')"

definition isDigit :: "char \<Rightarrow> bool" where
  "isDigit c = (c \<in> set ''0123456789'')"

definition isLetter :: "char \<Rightarrow> bool" where
  "isLetter c = (c \<in> set ''abcdefghijklmnopqrstuvwxyzABCDEFGHIJKLMNOPQRSTUVWXYZ'')"

definition isLineTerminator :: "char \<Rightarrow> bool" where
  "isLineTerminator c = (c \<in> set [CHR 0x0A, CHR 0x0D])"

datatype cls = Space | WordCh | Digit | Letter | Ch char

datatype atom = Lit char | Cls cls | AnyCh | OneOf "cls list"

datatype regex =
    Atom atom
  | Many atom
  | Many1 atom
  | Maybe atom
  | WordB
  | EndA
  | Cat "regex list"
  | Or "regex list"
  | Capture regex

fun clsOk :: "cls \<Rightarrow> char \<Rightarrow> bool" where
  "clsOk Space c = isSpace c"
| "clsOk WordCh c = isWordChar c"
| "clsOk Digit c = isDigit c"
| "clsOk Letter c = isLetter c"
| "clsOk (Ch x) c = (toUpperChar c = toUpperChar x)"

fun atomOk :: "atom \<Rightarrow> char \<Rightarrow> bool" where
  "atomOk (Lit x) c = (toUpperChar c = toUpperChar x)"
| "atomOk (Cls k) c = clsOk k c"
| "atomOk AnyCh c = (\<not> isLineTerminator c)"
| "atomOk (OneOf ks) c = list_ex (\<lambda>k. clsOk k c) ks"

text \<open>
  The matcher is the backtracking matcher as a list of successes: the state of a match is
  the character before the current position (\<open>None\<close> at the start of the input), the
  rest of the input and the text of the capturing group; \<open>matchHere r st\<close> lists the
  states in which \<open>r\<close> can end when it starts at \<open>st\<close>, in the order in which
  backtracking tries them, so the head of the list is the match JavaScript reports.
\<close>

type_synonym mstate = "char option \<times> string \<times> string option"

fun runs :: "atom \<Rightarrow> char option \<Rightarrow> string \<Rightarrow> (char option \<times> string) list" where
  "runs a p [] = [(p, [])]"
| "runs a p (c # cs) =
     (if atomOk a c then runs a (Some c) cs @ [(p, c # cs)] else [(p, c # cs)])"

definition wordBoundary :: "char option \<Rightarrow> string \<Rightarrow> bool" where
  "wordBoundary p s =
     ((case p of None \<Rightarrow> False | Some c \<Rightarrow> isWordChar c)
        \<noteq> (case s of [] \<Rightarrow> False | c # _ \<Rightarrow> isWordChar c))"

fun matchHere :: "regex \<Rightarrow> mstate \<Rightarrow> mstate list" where
  "matchHere (Atom a) (p, s, g) =
     (case s of [] \<Rightarrow> [] | c # cs \<Rightarrow> if atomOk a c then [(Some c, cs, g)] else [])"
| "matchHere (Many a) (p, s, g) = map (\<lambda>(p', s'). (p', s', g)) (runs a p s)"
| "matchHere (Many1 a) (p, s, g) =
     (case s of
        [] \<Rightarrow> []
      | c # cs \<Rightarrow> if atomOk a c then map (\<lambda>(p', s'). (p', s', g)) (runs a (Some c) cs) else [])"
| "matchHere (Maybe a) (p, s, g) =
     (case s of
        [] \<Rightarrow> [(p, s, g)]
      | c # cs \<Rightarrow> if atomOk a c then [(Some c, cs, g), (p, s, g)] else [(p, s, g)])"
| "matchHere WordB (p, s, g) = (if wordBoundary p s then [(p, s, g)] else [])"
| "matchHere EndA (p, s, g) = (if s = [] then [(p, s, g)] else [])"
| "matchHere (Cat []) st = [st]"
| "matchHere (Cat (r # rs)) st = concat (map (\<lambda>st'. matchHere (Cat rs) st') (matchHere r st))"
| "matchHere (Or []) st = []"
| "matchHere (Or (r # rs)) st = matchHere r st @ matchHere (Or rs) st"
| "matchHere (Capture r) (p, s, g) =
     map (\<lambda>(p', s', _). (p', s', Some (take (length s - length s') s))) (matchHere r (p, s, g))"

text \<open>\<open>pattern.exec(s)\<close> of a pattern without the flag \<open>g\<close> (and
  \<open>s.match(pattern)\<close>): the first match at the leftmost position that has one.\<close>

fun RegExp_exec :: "regex \<Rightarrow> char option \<Rightarrow> string \<Rightarrow> mstate option" where
  "RegExp_exec r p [] = (case matchHere r (p, [], None) of [] \<Rightarrow> None | st # _ \<Rightarrow> Some st)"
| "RegExp_exec r p (c # cs) =
     (case matchHere r (p, c # cs, None) of
        [] \<Rightarrow> RegExp_exec r (Some c) cs
      | st # _ \<Rightarrow> Some st)"

definition RegExp_test :: "regex \<Rightarrow> string \<Rightarrow> bool" where
  "RegExp_test r s = (RegExp_exec r None s \<noteq> None)"

text \<open>\<open>s.match(pattern)\<close> and \<open>s.matchAll(pattern)\<close> of a pattern with the
  flag \<open>g\<close>: the successive matches, each search starting where the last match
  ended, and one character further after an empty match. \<open>skip\<close> counts the
  characters of the last match still to pass over.\<close>

fun matchAllFrom :: "regex \<Rightarrow> nat \<Rightarrow> char option \<Rightarrow> string \<Rightarrow> mstate list" where
  "matchAllFrom r skip p [] =
     (if skip = 0 then (case matchHere r (p, [], None) of [] \<Rightarrow> [] | st # _ \<Rightarrow> [st]) else [])"
| "matchAllFrom r skip p (c # cs) =
     (if skip > 0 then matchAllFrom r (skip - 1) (Some c) cs
      else (case matchHere r (p, c # cs, None) of
              [] \<Rightarrow> matchAllFrom r 0 (Some c) cs
            | (p', s', g) # _ \<Rightarrow>
                (p', s', g) # matchAllFrom r (length (c # cs) - length s' - 1) (Some c) cs))"

definition String_matchAll :: "regex \<Rightarrow> string \<Rightarrow> mstate list" where
  "String_matchAll r s = matchAllFrom r 0 None s"

text \<open>A word of the pattern, letter by letter.\<close>

definition lits :: "string \<Rightarrow> regex list" where
  "lits s = map (\<lambda>c. Atom (Lit c)) s"

definition str :: "string \<Rightarrow> regex" where
  "str s = Cat (lits s)"

section \<open>QueryValidator\<close>

datatype Severity = SevInfo | SevWarning | SevError | SevCritical

text \<open>A \<open>ValidationError\<close> or \<open>ValidationWarning\<close>; the validator always gives
  a suggestion and never a position.\<close>

record Finding =
  code :: string
  message :: string
  severity :: Severity
  suggestion :: string

datatype QueryType = SELECT | INSERT | UPDATE | DELETE | DDL | TRANSACTION | OTHER

datatype Complexity = Low | Medium | High

text \<open>The type of a table name is a parameter of the result: \<open>string\<close> here, a
  value of JavaScript in the last section of the definitions.\<close>

record 'name QueryMetadata =
  queryType :: QueryType
  isMutation :: bool
  tablesAccessed :: "'name list"
  estimatedComplexity :: Complexity
  requiresConfirmation :: bool

record 'name ValidationResult =
  isValid :: bool
  errors :: "Finding list"
  warnings :: "Finding list"
  metadata :: "'name QueryMetadata"

definition detectQueryType :: "string \<Rightarrow> QueryType" where
  "detectQueryType query =
     (let normalized = toUpperCase (trim query) in
      if startsWith normalized ''SELECT'' then SELECT
      else if startsWith normalized ''INSERT'' then INSERT
      else if startsWith normalized ''UPDATE'' then UPDATE
      else if startsWith normalized ''DELETE'' then DELETE
      else if startsWith normalized ''CREATE'' \<or> startsWith normalized ''ALTER''
              \<or> startsWith normalized ''DROP'' \<or> startsWith normalized ''TRUNCATE'' then DDL
      else if startsWith normalized ''BEGIN'' \<or> startsWith normalized ''COMMIT''
              \<or> startsWith normalized ''ROLLBACK'' then TRANSACTION
      else OTHER)"

definition isMutationQuery :: "QueryType \<Rightarrow> bool" where
  "isMutationQuery kind = (kind \<in> set [INSERT, UPDATE, DELETE, DDL])"

text \<open>
  The patterns below are the regular expression literals of the source, in its order.
  \<open>CHR 0x27\<close> is the single quote.
\<close>

definition dangerousPatterns :: "(regex \<times> string) list" where
  "dangerousPatterns =
     [(Cat [WordB, str ''DROP'', Many1 (Cls Space), str ''TABLE'', WordB], ''DROP TABLE''),
      (Cat [WordB, str ''DROP'', Many1 (Cls Space), str ''DATABASE'', WordB], ''DROP DATABASE''),
      (Cat [WordB, str ''TRUNCATE'', WordB], ''TRUNCATE''),
      (Cat [WordB, str ''DELETE'', Many1 (Cls Space), str ''FROM'', Many1 (Cls Space),
            Many1 (Cls WordCh), Many (Cls Space), Maybe (Lit CHR '';''), Many (Cls Space), EndA],
       ''DELETE ALL ROWS''),
      (Cat [WordB, str ''ALTER'', Many1 (Cls Space), str ''TABLE'', WordB], ''ALTER TABLE''),
      (Cat [WordB, str ''DROP'', Many1 (Cls Space), str ''COLUMN'', WordB], ''DROP COLUMN''),
      (Or [Cat [WordB, str ''EXEC'', WordB], Cat [WordB, str ''EXECUTE'', WordB]], ''EXECUTE''),
      (Cat [Atom (Lit CHR '';''), Many (Cls Space), str ''DROP'', WordB], ''SQL INJECTION (DROP)''),
      (Cat [Atom (Lit CHR '';''), Many (Cls Space), str ''DELETE'', WordB],
       ''SQL INJECTION (DELETE)'')]"

definition detectDangerousOperations :: "string \<Rightarrow> string list" where
  "detectDangerousOperations query =
     map snd (filter (\<lambda>(pattern, name). RegExp_test pattern query) dangerousPatterns)"

definition injectionPatterns :: "(regex \<times> string) list" where
  "injectionPatterns =
     [(Cat [Atom (Lit CHR 0x27), Many (Cls Space), str ''OR'', Many1 (Cls Space),
            Maybe (Lit CHR 0x27), Many1 (Cls Digit), Maybe (Lit CHR 0x27), Many (Cls Space),
            Atom (Lit CHR ''=''), Many (Cls Space),
            Maybe (Lit CHR 0x27), Many1 (Cls Digit), Maybe (Lit CHR 0x27)],
       ''OR 1=1 pattern detected''),
      (Cat [Atom (Lit CHR 0x27), Many (Cls Space), str ''OR'', Many1 (Cls Space),
            Maybe (Lit CHR 0x27), Many1 (Cls Letter), Maybe (Lit CHR 0x27), Many (Cls Space),
            Atom (Lit CHR ''=''), Many (Cls Space),
            Maybe (Lit CHR 0x27), Many1 (Cls Letter), Maybe (Lit CHR 0x27)],
       ''OR '' @ [CHR 0x27] @ ''x'' @ [CHR 0x27] @ ''='' @ [CHR 0x27] @ ''x'' @ [CHR 0x27]
         @ '' pattern detected''),
      (Cat [Atom (Lit CHR 0x27), Many (Cls Space), Atom (Lit CHR '';''), Many AnyCh, str ''--''],
       ''SQL comment injection pattern detected''),
      (Cat [str ''UNION'', Many1 (Cls Space), str ''SELECT''], ''UNION SELECT pattern detected''),
      (Cat [Atom (Lit CHR 0x27), Many (Cls Space), Atom (Lit CHR '')''), Many (Cls Space),
            str ''OR'', Many (Cls Space), Atom (Lit CHR ''('')],
       ''Parentheses OR pattern detected'')]"

definition detectInjectionPatterns :: "string \<Rightarrow> Finding list" where
  "detectInjectionPatterns query =
     map (\<lambda>(pattern, msg).
            \<lparr>code = ''POTENTIAL_INJECTION'',
             message = msg,
             severity = SevWarning,
             suggestion = ''Use parameterized queries to prevent SQL injection.''\<rparr>)
         (filter (\<lambda>(pattern, msg). RegExp_test pattern query) injectionPatterns)"

definition fromClausePattern :: regex where
  "fromClausePattern =
     Cat [str ''FROM'', Many1 (Cls Space),
          Capture (Many1 (OneOf [WordCh, Ch CHR '','', Space])),
          Or [str ''WHERE'', str ''GROUP'', str ''ORDER'', str ''LIMIT'', EndA]]"

definition hasCartesianProduct :: "string \<Rightarrow> bool" where
  "hasCartesianProduct query =
     (case RegExp_exec fromClausePattern None query of
        None \<Rightarrow> False
      | Some (p, s, g) \<Rightarrow>
          (let tables = map trim (split CHR '','' (case g of Some t \<Rightarrow> t | None \<Rightarrow> []))
           in length tables > 1 \<and> \<not> includesStr query ''JOIN''))"

text \<open>The entries with \<open>minMatches\<close> are the two patterns with the flag
  \<open>g\<close>, for which \<open>match\<close> answers all matches; for the others it answers the
  first match, or \<open>null\<close>.\<close>

definition expensivePatterns :: "(regex \<times> string \<times> nat option) list" where
  "expensivePatterns =
     [(Cat [WordB, str ''LIKE'', Many1 (Cls Space), Atom (Lit CHR 0x27), Atom (Lit CHR ''%''),
            Many AnyCh, Atom (Lit CHR ''%''), Atom (Lit CHR 0x27)],
       ''LIKE with leading wildcard'', None),
      (Cat [WordB, str ''NOT'', Many1 (Cls Space), str ''IN'', Many (Cls Space),
            Atom (Lit CHR ''('')],
       ''NOT IN subquery'', None),
      (Cat [WordB, str ''OR'', WordB], ''Multiple OR conditions'', Some 3),
      (Cat [WordB, str ''UNION'', WordB], ''UNION operation'', None),
      (Cat [WordB, str ''DISTINCT'', WordB], ''DISTINCT operation'', None),
      (Cat [WordB, Or [str ''SUBSTRING'', str ''LOWER'', str ''UPPER'', str ''CONCAT''],
            Many (Cls Space), Atom (Lit CHR ''('')],
       ''Function on column'', Some 2)]"

definition detectExpensiveOperations :: "string \<Rightarrow> string list" where
  "detectExpensiveOperations query =
     map (\<lambda>(pattern, name, minMatches). name)
       (filter (\<lambda>(pattern, name, minMatches).
                  case minMatches of
                    None \<Rightarrow> RegExp_test pattern query
                  | Some n \<Rightarrow>
                      (let matches = String_matchAll pattern query
                       in matches \<noteq> [] \<and> (n = 0 \<or> length matches \<ge> n)))
          expensivePatterns)"

text \<open>A JavaScript \<open>Set\<close> keeps its elements in insertion order.\<close>

definition Set_add :: "'a list \<Rightarrow> 'a \<Rightarrow> 'a list" where
  "Set_add s x = (if x \<in> set s then s else s @ [x])"

definition tableNamePatterns :: "regex list" where
  "tableNamePatterns =
     [Cat [str ''FROM'', Many1 (Cls Space), Capture (Many1 (OneOf [WordCh, Ch CHR ''.'']))],
      Cat [str ''JOIN'', Many1 (Cls Space), Capture (Many1 (OneOf [WordCh, Ch CHR ''.'']))],
      Cat [str ''INSERT'', Many1 (Cls Space), str ''INTO'', Many1 (Cls Space),
           Capture (Many1 (OneOf [WordCh, Ch CHR ''.'']))],
      Cat [str ''UPDATE'', Many1 (Cls Space), Capture (Many1 (OneOf [WordCh, Ch CHR ''.'']))],
      Cat [str ''DELETE'', Many1 (Cls Space), str ''FROM'', Many1 (Cls Space),
           Capture (Many1 (OneOf [WordCh, Ch CHR ''.'']))]]"

definition extractTableNames :: "string \<Rightarrow> string list" where
  "extractTableNames query =
     foldl Set_add []
       (concat (map (\<lambda>pattern.
                  map (\<lambda>(p, s, g). case g of Some t \<Rightarrow> t | None \<Rightarrow> [])
                    (String_matchAll pattern query))
                tableNamePatterns))"

definition indicators :: "(regex \<times> nat) list" where
  "indicators =
     [(Cat [WordB, str ''JOIN'', WordB], 2),
      (Or [Cat [WordB, str ''SUBSELECT'', WordB],
           Cat [Atom (Lit CHR ''(''), Many (Cls Space), str ''SELECT'']], 3),
      (Cat [WordB, str ''UNION'', WordB], 2),
      (Cat [WordB, str ''GROUP BY'', WordB], 1),
      (Cat [WordB, str ''HAVING'', WordB], 1),
      (Cat [WordB, str ''ORDER BY'', WordB], 1),
      (Cat [WordB, str ''DISTINCT'', WordB], 1),
      (Cat [WordB, str ''WINDOW'', WordB], 3),
      (Or [Cat [WordB, str ''CTE'', WordB],
           Cat [WordB, str ''WITH'', Many1 (Cls Space), Many1 (Cls WordCh), Many1 (Cls Space),
                str ''AS'']], 2)]"

definition estimateComplexity :: "string \<Rightarrow> Complexity" where
  "estimateComplexity query =
     (let score = foldl (\<lambda>score (pattern, weight).
                           score + length (String_matchAll pattern query) * weight) 0 indicators
      in if score \<le> 2 then Low else if score \<le> 6 then Medium else High)"

text \<open>
  \<open>validate\<close>: the two arrays \<open>errors\<close> and \<open>warnings\<close> grow by
  \<open>push\<close>; the numbered names are their successive contents.
\<close>

definition validate :: "string \<Rightarrow> string ValidationResult" where
  "validate query =
     (let normalizedQuery = toUpperCase (trim query);
          queryType = detectQueryType query;
          isMutation = isMutationQuery queryType;
          dangerousOps = detectDangerousOperations normalizedQuery;
          errors1 = map (\<lambda>op.
                      \<lparr>code = ''DANGEROUS_OPERATION'',
                       message = ''Dangerous operation detected: '' @ op,
                       severity = SevCritical,
                       suggestion = ''Review this operation carefully before executing.''\<rparr>)
                    dangerousOps;
          warnings1 = detectInjectionPatterns query;
          noWhere = (isMutation \<and> \<not> includesStr normalizedQuery ''WHERE'');
          errors2 = errors1 @
            (if noWhere \<and> queryType = DELETE then
               [\<lparr>code = ''DELETE_WITHOUT_WHERE'',
                 message = ''DELETE statement without WHERE clause will remove all rows'',
                 severity = SevCritical,
                 suggestion = ''Add a WHERE clause to limit the deletion scope.''\<rparr>]
             else []);
          warnings2 = warnings1 @
            (if noWhere \<and> queryType \<noteq> DELETE \<and> queryType = UPDATE then
               [\<lparr>code = ''UPDATE_WITHOUT_WHERE'',
                 message = ''UPDATE statement without WHERE clause will modify all rows'',
                 severity = SevWarning,
                 suggestion = ''Add a WHERE clause to limit the update scope.''\<rparr>]
             else []);
          warnings3 = warnings2 @
            (if includesStr normalizedQuery ''SELECT *'' then
               [\<lparr>code = ''SELECT_STAR'',
                 message = ''Using SELECT * may retrieve unnecessary columns'',
                 severity = SevInfo,
                 suggestion = ''Specify only the columns you need for better performance.''\<rparr>]
             else []);
          warnings4 = warnings3 @
            (if queryType = SELECT \<and> \<not> includesStr normalizedQuery ''LIMIT'' then
               [\<lparr>code = ''MISSING_LIMIT'',
                 message = ''SELECT query without LIMIT may return large result sets'',
                 severity = SevInfo,
                 suggestion = ''Consider adding LIMIT clause to control result size.''\<rparr>]
             else []);
          warnings5 = warnings4 @
            (if hasCartesianProduct normalizedQuery then
               [\<lparr>code = ''CARTESIAN_PRODUCT'',
                 message = ''Query may produce cartesian product'',
                 severity = SevWarning,
                 suggestion = ''Ensure proper JOIN conditions between tables.''\<rparr>]
             else []);
          expensiveOps = detectExpensiveOperations normalizedQuery;
          warnings6 = warnings5 @
            map (\<lambda>op.
                   \<lparr>code = ''EXPENSIVE_OPERATION'',
                    message = ''Potentially expensive operation detected: '' @ op,
                    severity = SevWarning,
                    suggestion = ''This operation may impact performance on large tables.''\<rparr>)
                expensiveOps;
          tablesAccessed = extractTableNames query;
          estimatedComplexity = estimateComplexity normalizedQuery;
          requiresConfirmation = (isMutation \<or> length dangerousOps > 0 \<or> length errors2 > 0)
      in \<lparr>isValid = (length errors2 = 0),
          errors = errors2,
          warnings = warnings6,
          metadata =
            \<lparr>queryType = queryType,
             isMutation = isMutation,
             tablesAccessed = tablesAccessed,
             estimatedComplexity = estimatedComplexity,
             requiresConfirmation = requiresConfirmation\<rparr>\<rparr>)"

section \<open>QueryValidator on JavaScript strings\<close>

text \<open>
  A JavaScript string is a sequence of UTF-16 code units, and \<open>validate\<close> accepts
  every one of them. This section embeds the validator once more, on lists of code
  units (integers from 0 to 65535), with the failures of the JavaScript run time written out:
  reading a property of \<open>undefined\<close> is the value \<open>TypeError\<close>, and a capturing
  group that took no part in a match is \<open>None\<close> (\<open>undefined\<close>).
  \<open>String.prototype.toUpperCase\<close> maps by the Unicode tables, which are not written
  out here; it is the argument \<open>upper\<close> of the functions below, so what is proved of
  them holds whatever the mapping does. The patterns are the ones above.
\<close>

text \<open>White space (\<open>trim\<close>, \<open>\s\<close>) and line terminators over all code units; the
  word characters, digits and letters of \<open>\w\<close>, \<open>\d\<close> and \<open>[a-z]\<close> are ASCII
  also under the flag \<open>i\<close>.\<close>

definition isSpaceU :: "int \<Rightarrow> bool" where
  "isSpaceU n =
     (n \<in> set [0x09, 0x0A, 0x0B, 0x0C, 0x0D, 0x20, 0xA0, 0x1680, 0x2028, 0x2029, 0x202F,
                0x205F, 0x3000, 0xFEFF]
      \<or> (0x2000 \<le> n \<and> n \<le> 0x200A))"

definition isLineTerminatorU :: "int \<Rightarrow> bool" where
  "isLineTerminatorU n = (n \<in> set [0x0A, 0x0D, 0x2028, 0x2029])"

definition isDigitU :: "int \<Rightarrow> bool" where
  "isDigitU n = (0x30 \<le> n \<and> n \<le> 0x39)"

definition isLetterU :: "int \<Rightarrow> bool" where
  "isLetterU n = ((0x41 \<le> n \<and> n \<le> 0x5A) \<or> (0x61 \<le> n \<and> n \<le> 0x7A))"

definition isWordCharU :: "int \<Rightarrow> bool" where
  "isWordCharU n = (isLetterU n \<or> isDigitU n \<or> n = 0x5F)"

text \<open>
  A literal character of a pattern under the flag \<open>i\<close>: pattern and input character
  are compared after \<open>Canonicalize\<close>, which maps a code unit to its upper case, except
  that a code unit from 128 on is never mapped below 128. The literals of the patterns
  are ASCII, so only an ASCII code unit can match one.
\<close>

definition canonicalizeU :: "int \<Rightarrow> int" where
  "canonicalizeU n = (if 0x61 \<le> n \<and> n \<le> 0x7A then n - 0x20 else n)"

definition literalOkU :: "char \<Rightarrow> int \<Rightarrow> bool" where
  "literalOkU x n = (n < 128 \<and> canonicalizeU n = canonicalizeU (of_char x))"

text \<open>The code units of a string literal of the source.\<close>

definition units :: "string \<Rightarrow> int list" where
  "units s = map of_char s"

definition trimU :: "int list \<Rightarrow> int list" where
  "trimU s = rev (dropWhile isSpaceU (rev (dropWhile isSpaceU s)))"

fun clsOkU :: "cls \<Rightarrow> int \<Rightarrow> bool" where
  "clsOkU Space n = isSpaceU n"
| "clsOkU WordCh n = isWordCharU n"
| "clsOkU Digit n = isDigitU n"
| "clsOkU Letter n = isLetterU n"
| "clsOkU (Ch x) n = literalOkU x n"

fun atomOkU :: "atom \<Rightarrow> int \<Rightarrow> bool" where
  "atomOkU (Lit x) n = literalOkU x n"
| "atomOkU (Cls k) n = clsOkU k n"
| "atomOkU AnyCh n = (\<not> isLineTerminatorU n)"
| "atomOkU (OneOf ks) n = list_ex (\<lambda>k. clsOkU k n) ks"

type_synonym mstateU = "int option \<times> int list \<times> int list option"

fun runsU :: "atom \<Rightarrow> int option \<Rightarrow> int list \<Rightarrow> (int option \<times> int list) list" where
  "runsU a p [] = [(p, [])]"
| "runsU a p (c # cs) =
     (if atomOkU a c then runsU a (Some c) cs @ [(p, c # cs)] else [(p, c # cs)])"

definition wordBoundaryU :: "int option \<Rightarrow> int list \<Rightarrow> bool" where
  "wordBoundaryU p s =
     ((case p of None \<Rightarrow> False | Some c \<Rightarrow> isWordCharU c)
        \<noteq> (case s of [] \<Rightarrow> False | c # _ \<Rightarrow> isWordCharU c))"

fun matchHereU :: "regex \<Rightarrow> mstateU \<Rightarrow> mstateU list" where
  "matchHereU (Atom a) (p, s, g) =
     (case s of [] \<Rightarrow> [] | c # cs \<Rightarrow> if atomOkU a c then [(Some c, cs, g)] else [])"
| "matchHereU (Many a) (p, s, g) = map (\<lambda>(p', s'). (p', s', g)) (runsU a p s)"
| "matchHereU (Many1 a) (p, s, g) =
     (case s of
        [] \<Rightarrow> []
      | c # cs \<Rightarrow> if atomOkU a c then map (\<lambda>(p', s'). (p', s', g)) (runsU a (Some c) cs) else [])"
| "matchHereU (Maybe a) (p, s, g) =
     (case s of
        [] \<Rightarrow> [(p, s, g)]
      | c # cs \<Rightarrow> if atomOkU a c then [(Some c, cs, g), (p, s, g)] else [(p, s, g)])"
| "matchHereU WordB (p, s, g) = (if wordBoundaryU p s then [(p, s, g)] else [])"
| "matchHereU EndA (p, s, g) = (if s = [] then [(p, s, g)] else [])"
| "matchHereU (Cat []) st = [st]"
| "matchHereU (Cat (r # rs)) st =
     concat (map (\<lambda>st'. matchHereU (Cat rs) st') (matchHereU r st))"
| "matchHereU (Or []) st = []"
| "matchHereU (Or (r # rs)) st = matchHereU r st @ matchHereU (Or rs) st"
| "matchHereU (Capture r) (p, s, g) =
     map (\<lambda>(p', s', _). (p', s', Some (take (length s - length s') s))) (matchHereU r (p, s, g))"

fun RegExp_execU :: "regex \<Rightarrow> int option \<Rightarrow> int list \<Rightarrow> mstateU option" where
  "RegExp_execU r p [] = (case matchHereU r (p, [], None) of [] \<Rightarrow> None | st # _ \<Rightarrow> Some st)"
| "RegExp_execU r p (c # cs) =
     (case matchHereU r (p, c # cs, None) of
        [] \<Rightarrow> RegExp_execU r (Some c) cs
      | st # _ \<Rightarrow> Some st)"

definition RegExp_testU :: "regex \<Rightarrow> int list \<Rightarrow> bool" where
  "RegExp_testU r s = (RegExp_execU r None s \<noteq> None)"

fun matchAllFromU :: "regex \<Rightarrow> nat \<Rightarrow> int option \<Rightarrow> int list \<Rightarrow> mstateU list" where
  "matchAllFromU r skip p [] =
     (if skip = 0 then (case matchHereU r (p, [], None) of [] \<Rightarrow> [] | st # _ \<Rightarrow> [st]) else [])"
| "matchAllFromU r skip p (c # cs) =
     (if skip > 0 then matchAllFromU r (skip - 1) (Some c) cs
      else (case matchHereU r (p, c # cs, None) of
              [] \<Rightarrow> matchAllFromU r 0 (Some c) cs
            | (p', s', g) # _ \<Rightarrow>
                (p', s', g) # matchAllFromU r (length (c # cs) - length s' - 1) (Some c) cs))"

definition String_matchAllU :: "regex \<Rightarrow> int list \<Rightarrow> mstateU list" where
  "String_matchAllU r s = matchAllFromU r 0 None s"

definition detectQueryTypeU :: "(int list \<Rightarrow> int list) \<Rightarrow> int list \<Rightarrow> QueryType" where
  "detectQueryTypeU upper query =
     (let normalized = upper (trimU query) in
      if startsWith normalized (units ''SELECT'') then SELECT
      else if startsWith normalized (units ''INSERT'') then INSERT
      else if startsWith normalized (units ''UPDATE'') then UPDATE
      else if startsWith normalized (units ''DELETE'') then DELETE
      else if startsWith normalized (units ''CREATE'') \<or> startsWith normalized (units ''ALTER'')
              \<or> startsWith normalized (units ''DROP'')
              \<or> startsWith normalized (units ''TRUNCATE'') then DDL
      else if startsWith normalized (units ''BEGIN'') \<or> startsWith normalized (units ''COMMIT'')
              \<or> startsWith normalized (units ''ROLLBACK'') then TRANSACTION
      else OTHER)"

definition detectDangerousOperationsU :: "int list \<Rightarrow> string list" where
  "detectDangerousOperationsU query =
     map snd (filter (\<lambda>(pattern, name). RegExp_testU pattern query) dangerousPatterns)"

definition detectInjectionPatternsU :: "int list \<Rightarrow> Finding list" where
  "detectInjectionPatternsU query =
     map (\<lambda>(pattern, msg).
            \<lparr>code = ''POTENTIAL_INJECTION'',
             message = msg,
             severity = SevWarning,
             suggestion = ''Use parameterized queries to prevent SQL injection.''\<rparr>)
         (filter (\<lambda>(pattern, msg). RegExp_testU pattern query) injectionPatterns)"

text \<open>\<open>fromMatch[1].split(',')\<close> throws a \<open>TypeError\<close> when the group is
  \<open>undefined\<close>.\<close>

definition hasCartesianProductU :: "int list \<Rightarrow> error + bool" where
  "hasCartesianProductU query =
     (case RegExp_execU fromClausePattern None query of
        None \<Rightarrow> Inr False
      | Some (p, s, g) \<Rightarrow>
          (case g of
             None \<Rightarrow> Inl TypeError
           | Some t \<Rightarrow>
               (let tables = map trimU (split 0x2C t)
                in Inr (length tables > 1 \<and> \<not> includesStr query (units ''JOIN'')))))"

definition detectExpensiveOperationsU :: "int list \<Rightarrow> string list" where
  "detectExpensiveOperationsU query =
     map (\<lambda>(pattern, name, minMatches). name)
       (filter (\<lambda>(pattern, name, minMatches).
                  case minMatches of
                    None \<Rightarrow> RegExp_testU pattern query
                  | Some n \<Rightarrow>
                      (let matches = String_matchAllU pattern query
                       in matches \<noteq> [] \<and> (n = 0 \<or> length matches \<ge> n)))
          expensivePatterns)"

text \<open>\<open>tables.add(match[1])\<close>: the set holds \<open>match[1]\<close> as it is, also when it
  is \<open>undefined\<close>.\<close>

definition extractTableNamesU :: "int list \<Rightarrow> int list option list" where
  "extractTableNamesU query =
     foldl Set_add []
       (concat (map (\<lambda>pattern. map (\<lambda>(p, s, g). g) (String_matchAllU pattern query))
                tableNamePatterns))"

definition estimateComplexityU :: "int list \<Rightarrow> Complexity" where
  "estimateComplexityU query =
     (let score = foldl (\<lambda>score (pattern, weight).
                           score + length (String_matchAllU pattern query) * weight) 0 indicators
      in if score \<le> 2 then Low else if score \<le> 6 then Medium else High)"

text \<open>\<open>validate\<close> with its failures: the one statement that can throw is the call
  of \<open>hasCartesianProduct\<close>; when it does, nothing is returned.\<close>

definition validateU ::
  "(int list \<Rightarrow> int list) \<Rightarrow> int list \<Rightarrow> error + (int list option) ValidationResult" where
  "validateU upper query =
     (let normalizedQuery = upper (trimU query);
          queryType = detectQueryTypeU upper query;
          isMutation = isMutationQuery queryType;
          dangerousOps = detectDangerousOperationsU normalizedQuery;
          errors1 = map (\<lambda>op.
                      \<lparr>code = ''DANGEROUS_OPERATION'',
                       message = ''Dangerous operation detected: '' @ op,
                       severity = SevCritical,
                       suggestion = ''Review this operation carefully before executing.''\<rparr>)
                    dangerousOps;
          warnings1 = detectInjectionPatternsU query;
          noWhere = (isMutation \<and> \<not> includesStr normalizedQuery (units ''WHERE''));
          errors2 = errors1 @
            (if noWhere \<and> queryType = DELETE then
               [\<lparr>code = ''DELETE_WITHOUT_WHERE'',
                 message = ''DELETE statement without WHERE clause will remove all rows'',
                 severity = SevCritical,
                 suggestion = ''Add a WHERE clause to limit the deletion scope.''\<rparr>]
             else []);
          warnings2 = warnings1 @
            (if noWhere \<and> queryType \<noteq> DELETE \<and> queryType = UPDATE then
               [\<lparr>code = ''UPDATE_WITHOUT_WHERE'',
                 message = ''UPDATE statement without WHERE clause will modify all rows'',
                 severity = SevWarning,
                 suggestion = ''Add a WHERE clause to limit the update scope.''\<rparr>]
             else []);
          warnings3 = warnings2 @
            (if includesStr normalizedQuery (units ''SELECT *'') then
               [\<lparr>code = ''SELECT_STAR'',
                 message = ''Using SELECT * may retrieve unnecessary columns'',
                 severity = SevInfo,
                 suggestion = ''Specify only the columns you need for better performance.''\<rparr>]
             else []);
          warnings4 = warnings3 @
            (if queryType = SELECT \<and> \<not> includesStr normalizedQuery (units ''LIMIT'') then
               [\<lparr>code = ''MISSING_LIMIT'',
                 message = ''SELECT query without LIMIT may return large result sets'',
                 severity = SevInfo,
                 suggestion = ''Consider adding LIMIT clause to control result size.''\<rparr>]
             else [])
      in case hasCartesianProductU normalizedQuery of
           Inl e \<Rightarrow> Inl e
         | Inr cartesian \<Rightarrow>
             (let warnings5 = warnings4 @
                    (if cartesian then
                       [\<lparr>code = ''CARTESIAN_PRODUCT'',
                         message = ''Query may produce cartesian product'',
                         severity = SevWarning,
                         suggestion = ''Ensure proper JOIN conditions between tables.''\<rparr>]
                     else []);
                  expensiveOps = detectExpensiveOperationsU normalizedQuery;
                  warnings6 = warnings5 @
                    map (\<lambda>op.
                           \<lparr>code = ''EXPENSIVE_OPERATION'',
                            message = ''Potentially expensive operation detected: '' @ op,
                            severity = SevWarning,
                            suggestion =
                              ''This operation may impact performance on large tables.''\<rparr>)
                        expensiveOps;
                  tablesAccessed = extractTableNamesU query;
                  estimatedComplexity = estimateComplexityU normalizedQuery;
                  requiresConfirmation =
                    (isMutation \<or> length dangerousOps > 0 \<or> length errors2 > 0)
              in Inr \<lparr>isValid = (length errors2 = 0),
                      errors = errors2,
                      warnings = warnings6,
                      metadata =
                        \<lparr>queryType = queryType,
                         isMutation = isMutation,
                         tablesAccessed = tablesAccessed,
                         estimatedComplexity = estimatedComplexity,
                         requiresConfirmation = requiresConfirmation\<rparr>\<rparr>))"

text \<open>An upper-casing for examples: the ASCII letters, and the sharp s (U+00DF), which
  \<open>toUpperCase\<close> turns into \<open>SS\<close>.\<close>

definition upperSample :: "int list \<Rightarrow> int list" where
  "upperSample s = concat (map (\<lambda>n. if n = 0xDF then [0x53, 0x53] else [canonicalizeU n]) s)"

section \<open>Properties of the shared helpers\<close>

lemma split_no_separator: "sep \<notin> set s \<Longrightarrow> split sep s = [s]"
  by (induction s) auto

lemma normalizeMaxRows_bounds: "1 \<le> normalizeMaxRows m \<and> normalizeMaxRows m \<le> 10000"
  by (auto simp: normalizeMaxRows_def defaultMaxRows_def absoluteMaxRows_def split: option.splits)

lemma normalizeMaxRows_le: "1 \<le> n \<Longrightarrow> normalizeMaxRows (Some n) \<le> n"
  by (auto simp: normalizeMaxRows_def defaultMaxRows_def absoluteMaxRows_def)

lemma withExplainPlan_rows:
  "withExplainPlan options explained q = Inr r \<Longrightarrow> rows r = rows q \<and> rowCount r = rowCount q"
  by (auto simp: withExplainPlan_def split: if_splits sum.splits)

section \<open>Column type mapping is total\<close>

text \<open>
  Claim C2, as the code has it. The three type-mapping functions are total and answer
  one category each: \<open>mapMySQLType\<close> and \<open>mapPostgreSQLType\<close> answer an entry of
  their table or \<open>unknown\<close>, and \<open>unknown\<close> for every type that is not a key of
  the table; \<open>normalizeSQLiteType\<close> answers one of its seven categories, and for a
  type name containing none of the substrings it looks for it answers \<open>blob\<close>, the
  SQLite default, never \<open>unknown\<close>.
\<close>

theorem type_mapping_total:
  "(t \<notin> Some ` fst ` set mysqlTypeMap \<longrightarrow> mapMySQLType t = ''unknown'')
   \<and> mapMySQLType t \<in> set (map snd mysqlTypeMap) \<union> {''unknown''}
   \<and> (oid \<notin> fst ` set pgTypeMap \<longrightarrow> mapPostgreSQLType oid = ''unknown'')
   \<and> mapPostgreSQLType oid \<in> set (map snd pgTypeMap) \<union> {''unknown''}
   \<and> normalizeSQLiteType s \<in> set sqliteCategories
   \<and> ((\<forall>k \<in> set sqliteTypeKeywords. \<not> includesStr (toUpperCase s) k)
        \<longrightarrow> normalizeSQLiteType s = ''blob'')"
proof -
  have my1: "t \<notin> Some ` fst ` set mysqlTypeMap \<longrightarrow> mapMySQLType t = ''unknown''"
  proof (cases t)
    case None
    then show ?thesis by (simp add: mapMySQLType_def)
  next
    case (Some n)
    show ?thesis
    proof
      assume "t \<notin> Some ` fst ` set mysqlTypeMap"
      with Some have "n \<notin> fst ` set mysqlTypeMap" by auto
      then have "map_of mysqlTypeMap n = None" by (simp add: map_of_eq_None_iff)
      with Some show "mapMySQLType t = ''unknown''" by (simp add: mapMySQLType_def)
    qed
  qed
  have my2: "mapMySQLType t \<in> set (map snd mysqlTypeMap) \<union> {''unknown''}"
  proof (cases t)
    case None
    then show ?thesis by (simp add: mapMySQLType_def)
  next
    case (Some n)
    show ?thesis
    proof (cases "map_of mysqlTypeMap n")
      case None
      with Some show ?thesis by (simp add: mapMySQLType_def)
    next
      case (Some name)
      then have "(n, name) \<in> set mysqlTypeMap" by (rule map_of_SomeD)
      then have "name \<in> set (map snd mysqlTypeMap)" by force
      with Some \<open>t = Some n\<close> show ?thesis by (simp add: mapMySQLType_def)
    qed
  qed
  have pg1: "oid \<notin> fst ` set pgTypeMap \<longrightarrow> mapPostgreSQLType oid = ''unknown''"
  proof
    assume "oid \<notin> fst ` set pgTypeMap"
    then have "map_of pgTypeMap oid = None" by (simp add: map_of_eq_None_iff)
    then show "mapPostgreSQLType oid = ''unknown''" by (simp add: mapPostgreSQLType_def)
  qed
  have pg2: "mapPostgreSQLType oid \<in> set (map snd pgTypeMap) \<union> {''unknown''}"
  proof (cases "map_of pgTypeMap oid")
    case None
    then show ?thesis by (simp add: mapPostgreSQLType_def)
  next
    case (Some name)
    then have "(oid, name) \<in> set pgTypeMap" by (rule map_of_SomeD)
    then have "name \<in> set (map snd pgTypeMap)" by force
    with Some show ?thesis by (simp add: mapPostgreSQLType_def)
  qed
  have sq1: "normalizeSQLiteType s \<in> set sqliteCategories"
    by (simp add: normalizeSQLiteType_def sqliteCategories_def Let_def)
  have sq2: "(\<forall>k \<in> set sqliteTypeKeywords. \<not> includesStr (toUpperCase s) k)
        \<longrightarrow> normalizeSQLiteType s = ''blob''"
    by (simp add: normalizeSQLiteType_def sqliteTypeKeywords_def Let_def)
  from my1 my2 pg1 pg2 sq1 sq2 show ?thesis by blast
qed

theorem type_mapping_total_witness:
  "Some 6 \<notin> Some ` fst ` set mysqlTypeMap \<and> mapMySQLType (Some 6) = ''unknown''
   \<and> mapMySQLType (Some 252) = ''blob''
   \<and> 9999 \<notin> fst ` set pgTypeMap \<and> mapPostgreSQLType 9999 = ''unknown''
   \<and> list_all (\<lambda>k. \<not> includesStr (toUpperCase ''geometry'') k) sqliteTypeKeywords
   \<and> normalizeSQLiteType ''geometry'' = ''blob''"
proof -
  have a: "Some 6 \<notin> Some ` fst ` set mysqlTypeMap" by (simp add: mysqlTypeMap_def)
  have b: "9999 \<notin> fst ` set pgTypeMap" by (simp add: pgTypeMap_def)
  have c: "\<forall>k \<in> set sqliteTypeKeywords. \<not> includesStr (toUpperCase ''geometry'') k"
    by (simp add: sqliteTypeKeywords_def toUpperCase_def toUpperChar_def)
  have d: "mapMySQLType (Some 252) = ''blob''" by (simp add: mapMySQLType_def mysqlTypeMap_def)
  from c have c': "list_all (\<lambda>k. \<not> includesStr (toUpperCase ''geometry'') k) sqliteTypeKeywords"
    by (simp add: list_all_iff)
  from a b c c' d type_mapping_total [of "Some 6" 9999 "''geometry''"] show ?thesis by blast
qed

text \<open>Claim C2 as stated fails for SQLite: the type name \<open>geometry\<close> contains
  none of the recognised substrings and is mapped to \<open>blob\<close>, not to \<open>unknown\<close>.\<close>

theorem sqlite_unrecognized_type_counterexample:
  "list_all (\<lambda>k. \<not> includesStr (toUpperCase ''geometry'') k) sqliteTypeKeywords
   \<and> normalizeSQLiteType ''geometry'' = ''blob''
   \<and> normalizeSQLiteType ''geometry'' \<noteq> ''unknown''"
  by (simp add: normalizeSQLiteType_def sqliteTypeKeywords_def toUpperCase_def toUpperChar_def)

section \<open>Unqualified table names\<close>

text \<open>
  Claim C10. For a table name without \<open>.\<close>, \<open>parseTableName\<close> answers the schema
  \<open>public\<close> and the whole name as the table; so \<open>getTableStatistics\<close> of the
  MySQL adapter binds \<open>TABLE_SCHEMA = 'public'\<close> and the name itself, and answers from
  the first catalog row of schema \<open>public\<close> with that name, or fails with
  \<open>Table ... not found\<close> when there is none, whatever the connected database is.
\<close>

theorem parseTableName_unqualified:
  assumes "CHR ''.'' \<notin> set name"
  shows "parseTableName name = \<lparr>schema = ''public'', table = name\<rparr>
    \<and> getTableStatistics_params name = (''public'', name)
    \<and> MySQLClient_getTableStatistics (Some catalog) name =
        (case filter (\<lambda>r. TABLE_SCHEMA r = ''public'' \<and> TABLE_NAME r = name) catalog of
           [] \<Rightarrow> Inl (Error (''Table '' @ name @ '' not found''))
         | stats # _ \<Rightarrow>
             Inr \<lparr>tableName = name, statRowCount = TABLE_ROWS stats,
                  sizeBytes = DATA_LENGTH stats, indexSizeBytes = INDEX_LENGTH stats\<rparr>)"
proof -
  from assms have sp: "split CHR ''.'' name = [name]" by (rule split_no_separator)
  then have p: "parseTableName name = \<lparr>schema = ''public'', table = name\<rparr>"
    by (simp add: parseTableName_def)
  then have q: "getTableStatistics_params name = (''public'', name)"
    by (simp add: getTableStatistics_params_def)
  from p q show ?thesis
    by (simp add: MySQLClient_getTableStatistics_def selectTables_def split: list.splits)
qed

theorem parseTableName_unqualified_witness:
  "CHR ''.'' \<notin> set ''users''
   \<and> parseTableName ''users'' = \<lparr>schema = ''public'', table = ''users''\<rparr>
   \<and> getTableStatistics_params ''users'' = (''public'', ''users'')
   \<and> MySQLClient_getTableStatistics
        (Some [\<lparr>TABLE_SCHEMA = ''shop'', TABLE_NAME = ''users'', TABLE_ROWS = 5,
                DATA_LENGTH = 16384, INDEX_LENGTH = 0\<rparr>]) ''users''
      = Inl (Error ''Table users not found'')"
proof -
  have h: "CHR ''.'' \<notin> set ''users''" by simp
  show ?thesis
    using h parseTableName_unqualified [OF h,
      of "[\<lparr>TABLE_SCHEMA = ''shop'', TABLE_NAME = ''users'', TABLE_ROWS = 5,
                DATA_LENGTH = 16384, INDEX_LENGTH = 0\<rparr>]"]
    by simp
qed

section \<open>Row limit of query\<close>

text \<open>
  Claim C3, as the code has it. Every result that \<open>query\<close> returns has at most
  \<open>normalizeMaxRows N\<close> rows, however many rows the engine produced, where
  \<open>N\<close> is the requested \<open>maxRows\<close>: that limit is at most \<open>N\<close> when
  \<open>N \<ge> 1\<close>, it is the default 1000 when \<open>N\<close> is absent, 0 or negative, and it
  never exceeds 10000. \<open>rowCount\<close> is the number of rows the engine produced (for
  MySQL and for a SQLite SELECT; the number of changes for another SQLite statement; for
  PostgreSQL the row count the driver reports, 0 when it reports none).
\<close>

theorem query_row_limit:
  "(1 \<le> n \<longrightarrow> normalizeMaxRows (Some n) \<le> n)
   \<and> (n \<le> 0 \<longrightarrow> normalizeMaxRows (Some n) = 1000)
   \<and> normalizeMaxRows None = 1000
   \<and> normalizeMaxRows (maxRows options) \<le> 10000
   \<and> (MySQLClient_query connected options (Inr reply) explained = Inr r1 \<longrightarrow>
          int (length (rows r1)) \<le> normalizeMaxRows (maxRows options)
          \<and> rowCount r1 = int (length (mysql_rows reply)))
   \<and> (SQLiteClient_query connected query options (Inr stmt) explained = Inr r2 \<longrightarrow>
          int (length (rows r2)) \<le> normalizeMaxRows (maxRows options)
          \<and> rowCount r2 =
              (if startsWith (toUpperCase (trim query)) ''SELECT''
               then (case stmt_all stmt of Inr rs \<Rightarrow> int (length rs) | Inl msg \<Rightarrow> 0)
               else (case stmt_run stmt of Inr changes \<Rightarrow> changes | Inl msg \<Rightarrow> 0)))
   \<and> (PostgreSQLClient_query connected options (Inr result) explained = Inr r3 \<longrightarrow>
          int (length (rows r3)) \<le> normalizeMaxRows (maxRows options)
          \<and> rowCount r3 = (case pg_rowCount result of None \<Rightarrow> 0 | Some c \<Rightarrow> c))"
proof -
  have n1: "1 \<le> n \<longrightarrow> normalizeMaxRows (Some n) \<le> n"
    by (simp add: normalizeMaxRows_le)
  have n2: "n \<le> 0 \<longrightarrow> normalizeMaxRows (Some n) = 1000"
    by (simp add: normalizeMaxRows_def defaultMaxRows_def)
  have n3: "normalizeMaxRows None = 1000"
    by (simp add: normalizeMaxRows_def defaultMaxRows_def)
  have ub: "normalizeMaxRows (maxRows options) \<le> 10000"
    and lb: "1 \<le> normalizeMaxRows (maxRows options)"
    using normalizeMaxRows_bounds by blast+
  have tk: "int (length (take (nat (normalizeMaxRows (maxRows options))) xs))
      \<le> normalizeMaxRows (maxRows options)" for xs :: "'x list"
    using lb by (auto simp: min_def le_nat_iff)
  have A: "MySQLClient_query connected options (Inr reply) explained = Inr r1 \<longrightarrow>
          int (length (rows r1)) \<le> normalizeMaxRows (maxRows options)
          \<and> rowCount r1 = int (length (mysql_rows reply))"
    using tk [of "mysql_rows reply"]
    by (auto simp: MySQLClient_query_def Let_def ensureConnected_def
        dest!: withExplainPlan_rows split: if_splits)
  have B: "SQLiteClient_query connected query options (Inr stmt) explained = Inr r2 \<longrightarrow>
          int (length (rows r2)) \<le> normalizeMaxRows (maxRows options)
          \<and> rowCount r2 =
              (if startsWith (toUpperCase (trim query)) ''SELECT''
               then (case stmt_all stmt of Inr rs \<Rightarrow> int (length rs) | Inl msg \<Rightarrow> 0)
               else (case stmt_run stmt of Inr changes \<Rightarrow> changes | Inl msg \<Rightarrow> 0))"
  proof (cases "stmt_all stmt")
    case (Inl msg)
    then show ?thesis
      using lb
      by (auto simp: SQLiteClient_query_def Let_def ensureConnected_def
          dest!: withExplainPlan_rows split: if_splits sum.splits)
  next
    case (Inr rs)
    then show ?thesis
      using tk [of rs] lb
      by (auto simp: SQLiteClient_query_def Let_def ensureConnected_def
          dest!: withExplainPlan_rows split: if_splits sum.splits)
  qed
  have C: "PostgreSQLClient_query connected options (Inr result) explained = Inr r3 \<longrightarrow>
          int (length (rows r3)) \<le> normalizeMaxRows (maxRows options)
          \<and> rowCount r3 = (case pg_rowCount result of None \<Rightarrow> 0 | Some c \<Rightarrow> c)"
    using tk [of "pg_rows result"]
    by (auto simp: PostgreSQLClient_query_def Let_def ensureConnected_def
        dest!: withExplainPlan_rows split: if_splits)
  from n1 n2 n3 ub A B C show ?thesis by blast
qed

theorem query_row_limit_witness:
  "(1::int) \<le> 2 \<and> normalizeMaxRows (Some 2) = 2
   \<and> maxRows \<lparr>maxRows = Some 2, explain = False\<rparr> = Some 2
   \<and> MySQLClient_query True \<lparr>maxRows = Some 2, explain = False\<rparr>
        (Inr \<lparr>mysql_rows = [''a'', ''b'', ''c''], mysql_fields = []\<rparr>) (Inl ''unused'')
      = Inr \<lparr>rows = [''a'', ''b''], rowCount = 3, fieldInfo = [], explainPlan = None :: unit option\<rparr>
   \<and> SQLiteClient_query True ''select 1'' \<lparr>maxRows = Some 2, explain = False\<rparr>
        (Inr \<lparr>stmt_all = Inr [''a'', ''b'', ''c''], stmt_run = Inl ''unused'', stmt_columns = []\<rparr>)
        (Inl ''unused'')
      = Inr \<lparr>rows = [''a'', ''b''], rowCount = 3, fieldInfo = [], explainPlan = None :: unit option\<rparr>
   \<and> PostgreSQLClient_query True \<lparr>maxRows = Some 2, explain = False\<rparr>
        (Inr \<lparr>pg_rows = [''a'', ''b'', ''c''], pg_rowCount = Some 3, pg_fields = []\<rparr>)
        (Inl ''unused'')
      = Inr \<lparr>rows = [''a'', ''b''], rowCount = 3, fieldInfo = [], explainPlan = None :: unit option\<rparr>
   \<and> int (length [''a'', ''b'']) \<le> normalizeMaxRows (Some 2)"
proof -
  have h2: "(1::int) \<le> 2" by simp
  have v: "normalizeMaxRows (Some 2) = 2"
    by (simp add: normalizeMaxRows_def absoluteMaxRows_def)
  have m: "MySQLClient_query True \<lparr>maxRows = Some 2, explain = False\<rparr>
        (Inr \<lparr>mysql_rows = [''a'', ''b'', ''c''], mysql_fields = []\<rparr>) (Inl ''unused'')
      = Inr \<lparr>rows = [''a'', ''b''], rowCount = 3, fieldInfo = [], explainPlan = None :: unit option\<rparr>"
    by (simp add: MySQLClient_query_def ensureConnected_def normalizeMaxRows_def
        absoluteMaxRows_def withExplainPlan_def numeral_2_eq_2)
  have sel: "startsWith (toUpperCase (trim ''select 1'')) ''SELECT''"
    by (simp add: toUpperCase_def toUpperChar_def trim_def isSpace_def)
  have s: "SQLiteClient_query True ''select 1'' \<lparr>maxRows = Some 2, explain = False\<rparr>
        (Inr \<lparr>stmt_all = Inr [''a'', ''b'', ''c''], stmt_run = Inl ''unused'', stmt_columns = []\<rparr>)
        (Inl ''unused'')
      = Inr \<lparr>rows = [''a'', ''b''], rowCount = 3, fieldInfo = [], explainPlan = None :: unit option\<rparr>"
    using sel
    by (simp add: SQLiteClient_query_def ensureConnected_def normalizeMaxRows_def
        absoluteMaxRows_def withExplainPlan_def numeral_2_eq_2)
  have p: "PostgreSQLClient_query True \<lparr>maxRows = Some 2, explain = False\<rparr>
        (Inr \<lparr>pg_rows = [''a'', ''b'', ''c''], pg_rowCount = Some 3, pg_fields = []\<rparr>)
        (Inl ''unused'')
      = Inr \<lparr>rows = [''a'', ''b''], rowCount = 3, fieldInfo = [], explainPlan = None :: unit option\<rparr>"
    by (simp add: PostgreSQLClient_query_def ensureConnected_def normalizeMaxRows_def
        absoluteMaxRows_def withExplainPlan_def numeral_2_eq_2)
  from query_row_limit [of 2 "\<lparr>maxRows = Some 2, explain = False\<rparr>" True
      "\<lparr>mysql_rows = [''a'', ''b'', ''c''], mysql_fields = []\<rparr>" "Inl ''unused''"
      "\<lparr>rows = [''a'', ''b''], rowCount = 3, fieldInfo = [], explainPlan = None :: unit option\<rparr>"]
    m
  have "int (length [''a'', ''b'']) \<le> normalizeMaxRows (Some 2)" by (simp add: v)
  with h2 v m s p show ?thesis by simp
qed

text \<open>Claim C3 as stated fails for \<open>N = 0\<close>: \<open>normalizeMaxRows\<close> takes 0 as
  "not given" and applies the default of 1000, so three rows come back.\<close>

theorem query_row_limit_counterexample:
  "MySQLClient_query True \<lparr>maxRows = Some 0, explain = False\<rparr>
        (Inr \<lparr>mysql_rows = [''a'', ''b'', ''c''], mysql_fields = []\<rparr>) (Inl ''unused'')
      = Inr \<lparr>rows = [''a'', ''b'', ''c''], rowCount = 3, fieldInfo = [],
              explainPlan = None :: unit option\<rparr>
   \<and> \<not> int (length [''a'', ''b'', ''c'']) \<le> 0"
  by (simp add: MySQLClient_query_def ensureConnected_def normalizeMaxRows_def
        defaultMaxRows_def withExplainPlan_def)

section \<open>Recommendations follow the plan tree\<close>

lemma seqScanAdvice_neq_nestedLoopAdvice: "seqScanAdvice r \<noteq> nestedLoopAdvice"
  by (simp add: seqScanAdvice_def nestedLoopAdvice_def)

lemma filter_concat_map:
  "filter P (concat (map f xs)) = concat (map (\<lambda>x. filter P (f x)) xs)"
  by (induction xs) auto

lemma needsIndex_Plan:
  "needsIndex (Plan nodeType planRows relation children)
     = (nodeType = ''Seq Scan'' \<and> planRows > 1000)"
  by (simp add: needsIndex_def)

lemma nodeAdvice_Plan:
  "nodeAdvice (Plan nodeType planRows relation children) =
     (if nodeType = ''Seq Scan'' \<and> planRows > 1000 then [seqScanAdvice relation] else [])
     @ (if nodeType = ''Nested Loop'' \<and> planRows > 10000 then [nestedLoopAdvice] else [])"
  by (simp add: nodeAdvice_def)

lemma concat_map_concat:
  "concat (map f (concat xss)) = concat (map (\<lambda>xs. concat (map f xs)) xss)"
  by (induction xss) auto

lemma generateRecommendations_nodeAdvice:
  "generateRecommendations p = concat (map nodeAdvice (preorder p))"
proof (induction p rule: generateRecommendations.induct)
  case (1 nodeType planRows relation children)
  have kids: "concat (map generateRecommendations children)
      = concat (map (\<lambda>c. concat (map nodeAdvice (preorder c))) children)"
    using 1 by (auto intro!: arg_cong [where f = concat])
  have "concat (map nodeAdvice (preorder (Plan nodeType planRows relation children)))
      = nodeAdvice (Plan nodeType planRows relation children)
        @ concat (map (\<lambda>c. concat (map nodeAdvice (preorder c))) children)"
    by (simp add: concat_map_concat comp_def)
  also have "\<dots> = generateRecommendations (Plan nodeType planRows relation children)"
    by (simp only: nodeAdvice_Plan generateRecommendations.simps kids append_assoc)
  finally show ?case by simp
qed

lemma filter_nodeAdvice:
  "filter (\<lambda>r. r \<noteq> nestedLoopAdvice) (nodeAdvice node)
     = (if needsIndex node then [seqScanAdvice (Relation_Name node)] else [])"
  by (simp add: nodeAdvice_def needsIndex_def seqScanAdvice_neq_nestedLoopAdvice)

lemma concat_map_if_filter:
  "concat (map (\<lambda>x. if P x then [f x] else []) xs) = map f (filter P xs)"
  by (induction xs) auto

text \<open>
  Claim C9. The recommendation list of a plan is the concatenation, over the nodes of
  the tree in pre-order, of what the pass pushes for each node: the index advice naming
  the node's relation when the node is a sequential scan with more than 1000 estimated
  rows, then the nested-loop advice when it applies. So there is one index advice for
  every such sequential-scan node of the tree (nothing is deduplicated), and the whole
  list, and with it the index advice alone, stands in the order of the pre-order
  traversal.
\<close>

theorem generateRecommendations_preorder:
  "generateRecommendations p = concat (map nodeAdvice (preorder p))
   \<and> filter (\<lambda>r. r \<noteq> nestedLoopAdvice) (generateRecommendations p)
       = map (\<lambda>node. seqScanAdvice (Relation_Name node)) (filter needsIndex (preorder p))"
proof
  show full: "generateRecommendations p = concat (map nodeAdvice (preorder p))"
    by (rule generateRecommendations_nodeAdvice)
  show "filter (\<lambda>r. r \<noteq> nestedLoopAdvice) (generateRecommendations p)
       = map (\<lambda>node. seqScanAdvice (Relation_Name node)) (filter needsIndex (preorder p))"
    by (simp only: full filter_concat_map filter_nodeAdvice concat_map_if_filter)
qed

theorem generateRecommendations_preorder_witness:
  "generateRecommendations
     (Plan ''Hash Join'' 20000 None
        [Plan ''Seq Scan'' 5000 (Some ''orders'') [],
         Plan ''Nested Loop'' 20000 None [Plan ''Seq Scan'' 5000 (Some ''orders'') []],
         Plan ''Seq Scan'' 1000 (Some ''users'') []])
   = [seqScanAdvice (Some ''orders''), nestedLoopAdvice, seqScanAdvice (Some ''orders'')]
   \<and> concat (map nodeAdvice (preorder
        (Plan ''Hash Join'' 20000 None
          [Plan ''Seq Scan'' 5000 (Some ''orders'') [],
           Plan ''Nested Loop'' 20000 None [Plan ''Seq Scan'' 5000 (Some ''orders'') []],
           Plan ''Seq Scan'' 1000 (Some ''users'') []])))
     = [seqScanAdvice (Some ''orders''), nestedLoopAdvice, seqScanAdvice (Some ''orders'')]
   \<and> map (\<lambda>node. seqScanAdvice (Relation_Name node))
        (filter needsIndex (preorder
          (Plan ''Hash Join'' 20000 None
            [Plan ''Seq Scan'' 5000 (Some ''orders'') [],
             Plan ''Nested Loop'' 20000 None [Plan ''Seq Scan'' 5000 (Some ''orders'') []],
             Plan ''Seq Scan'' 1000 (Some ''users'') []])))
     = [seqScanAdvice (Some ''orders''), seqScanAdvice (Some ''orders'')]"
  using generateRecommendations_preorder
    [of "Plan ''Hash Join'' 20000 None
        [Plan ''Seq Scan'' 5000 (Some ''orders'') [],
         Plan ''Nested Loop'' 20000 None [Plan ''Seq Scan'' 5000 (Some ''orders'') []],
         Plan ''Seq Scan'' 1000 (Some ''users'') []]"]
  by (simp add: seqScanAdvice_neq_nestedLoopAdvice needsIndex_Plan nodeAdvice_Plan)

section \<open>Foreign-key cardinality\<close>

lemma foldl_invariant:
  "I a \<Longrightarrow> (\<And>b x. I b \<Longrightarrow> I (f b x)) \<Longrightarrow> I (foldl f a xs)"
  by (induction xs arbitrary: a) auto

lemma map_of_Map_set:
  "map_of (Map_set m k v) k' = (if k' = k then Some v else map_of m k')"
  by (induction m) auto

lemma keys_Map_set:
  "map fst (Map_set m k v) = (if k \<in> set (map fst m) then map fst m else map fst m @ [k])"
  by (induction m) force+

lemma values_Map_set: "snd ` set (Map_set m k v) \<subseteq> insert v (snd ` set m)"
proof (induction m)
  case Nil
  show ?case by simp
next
  case (Cons p m)
  obtain k' v' where p: "p = (k', v')" by (cases p)
  show ?case
  proof (cases "k' = k")
    case True
    with p show ?thesis by auto
  next
    case False
    with p Cons show ?thesis by auto
  qed
qed

lemma Map_get_in_values: "Map_get m k = Some v \<Longrightarrow> v \<in> snd ` set m"
proof -
  assume "Map_get m k = Some v"
  then have "(k, v) \<in> set m" unfolding Map_get_def by (rule map_of_SomeD)
  then show ?thesis by force
qed

lemma Map_set_all:
  assumes "\<forall>v \<in> snd ` set m. P v" and "P v'"
  shows "\<forall>v \<in> snd ` set (Map_set m k v'). P v"
  using assms values_Map_set [of m k v'] by blast


lemma fk_push_balanced:
  assumes "\<forall>fk \<in> snd ` set m. fk_balanced fk"
  shows "\<forall>fk \<in> snd ` set (fk_push m k c rc). fk_balanced fk"
proof (cases "Map_get m k")
  case None
  with assms show ?thesis by (simp add: fk_push_def)
next
  case (Some fk)
  then have "fk \<in> snd ` set m" by (rule Map_get_in_values)
  with assms have "fk_balanced fk" by blast
  then have *: "fk_balanced (fk\<lparr>fk_columns := fk_columns fk @ [c],
                referencedColumns := referencedColumns fk @ [rc]\<rparr>)"
    by (simp add: fk_balanced_def)
  have "\<forall>x \<in> snd ` set (Map_set m k (fk\<lparr>fk_columns := fk_columns fk @ [c],
                referencedColumns := referencedColumns fk @ [rc]\<rparr>)). fk_balanced x"
    using assms * by (rule Map_set_all)
  with Some show ?thesis by (simp add: fk_push_def)
qed

lemma Map_set_fresh_balanced:
  assumes "\<forall>fk \<in> snd ` set m. fk_balanced fk"
    and "fk_columns v = []" and "referencedColumns v = []"
  shows "\<forall>fk \<in> snd ` set (Map_set m k v). fk_balanced fk"
proof -
  from assms(2,3) have "fk_balanced v" by (simp add: fk_balanced_def)
  with assms(1) show ?thesis by (rule Map_set_all)
qed

lemma fk_step_balanced:
  assumes "\<forall>fk \<in> snd ` set m. fk_balanced fk"
    and "fk_columns v = []" and "referencedColumns v = []"
  shows "\<forall>fk \<in> snd ` set (fk_push (if \<not> Map_has m k then Map_set m k v else m) k c rc).
           fk_balanced fk"
proof (rule fk_push_balanced)
  show "\<forall>fk \<in> snd ` set (if \<not> Map_has m k then Map_set m k v else m). fk_balanced fk"
  proof (cases "Map_has m k")
    case True
    with assms(1) show ?thesis by simp
  next
    case False
    have "\<forall>fk \<in> snd ` set (Map_set m k v). fk_balanced fk"
      using assms by (rule Map_set_fresh_balanced)
    with False show ?thesis by simp
  qed
qed

lemma mysql_fkMap_step_balanced:
  assumes "\<forall>fk \<in> snd ` set m. fk_balanced fk"
  shows "\<forall>fk \<in> snd ` set (mysql_fkMap_step m row). fk_balanced fk"
  unfolding mysql_fkMap_step_def Let_def
  by (rule fk_step_balanced [OF assms]) (simp_all add: mysql_newForeignKey_def)

lemma sqlite_fkMap_step_balanced:
  assumes "\<forall>fk \<in> snd ` set m. fk_balanced fk"
  shows "\<forall>fk \<in> snd ` set (sqlite_fkMap_step tbl m row). fk_balanced fk"
  unfolding sqlite_fkMap_step_def Let_def
  by (rule fk_step_balanced [OF assms]) (simp_all add: sqlite_newForeignKey_def)

lemma pg_fkMap_step_balanced:
  assumes "\<forall>fk \<in> snd ` set m. fk_balanced fk"
  shows "\<forall>fk \<in> snd ` set (pg_fkMap_step m row). fk_balanced fk"
  unfolding pg_fkMap_step_def Let_def
  by (rule fk_step_balanced [OF assms]) (simp_all add: pg_newForeignKey_def)

text \<open>
  Claim C7. Every foreign key that the introspection of the MySQL, the SQLite or the
  PostgreSQL adapter produces, from any list of catalog rows, has as many local columns
  as referenced columns.
\<close>

theorem foreign_key_cardinality:
  "(\<forall>fk \<in> set (MySQLClient_introspectForeignKeys mysqlRows).
      length (fk_columns fk) = length (referencedColumns fk))
   \<and> (\<forall>fk \<in> set (SQLiteClient_introspectForeignKeys tbl sqliteRows).
      length (fk_columns fk) = length (referencedColumns fk))
   \<and> (\<forall>fk \<in> set (PostgreSQLClient_introspectForeignKeys pgRows).
      length (fk_columns fk) = length (referencedColumns fk))"
proof -
  have a: "\<forall>fk \<in> snd ` set (foldl mysql_fkMap_step [] mysqlRows). fk_balanced fk"
    by (rule foldl_invariant [where I = "\<lambda>m. \<forall>fk \<in> snd ` set m. fk_balanced fk"])
      (simp, rule mysql_fkMap_step_balanced)
  have b: "\<forall>fk \<in> snd ` set (foldl (sqlite_fkMap_step tbl) [] sqliteRows). fk_balanced fk"
    by (rule foldl_invariant [where I = "\<lambda>m. \<forall>fk \<in> snd ` set m. fk_balanced fk"])
      (simp, rule sqlite_fkMap_step_balanced)
  have c: "\<forall>fk \<in> snd ` set (foldl pg_fkMap_step [] pgRows). fk_balanced fk"
    by (rule foldl_invariant [where I = "\<lambda>m. \<forall>fk \<in> snd ` set m. fk_balanced fk"])
      (simp, rule pg_fkMap_step_balanced)
  from a b c show ?thesis
    by (simp add: MySQLClient_introspectForeignKeys_def SQLiteClient_introspectForeignKeys_def
        PostgreSQLClient_introspectForeignKeys_def Map_values_def fk_balanced_def)
qed

theorem foreign_key_cardinality_witness:
  "MySQLClient_introspectForeignKeys
     [\<lparr>CONSTRAINT_NAME = ''fk_a'', kcu_COLUMN_NAME = ''x'', REFERENCED_TABLE_SCHEMA = ''shop'',
       REFERENCED_TABLE_NAME = ''t'', REFERENCED_COLUMN_NAME = ''id1'',
       UPDATE_RULE = ''CASCADE'', DELETE_RULE = ''RESTRICT''\<rparr>,
      \<lparr>CONSTRAINT_NAME = ''fk_a'', kcu_COLUMN_NAME = ''y'', REFERENCED_TABLE_SCHEMA = ''shop'',
       REFERENCED_TABLE_NAME = ''t'', REFERENCED_COLUMN_NAME = ''id2'',
       UPDATE_RULE = ''CASCADE'', DELETE_RULE = ''RESTRICT''\<rparr>]
   = [\<lparr>fk_name = ''fk_a'', fk_columns = [''x'', ''y''], referencedTable = ''t'',
        referencedSchema = ''shop'', referencedColumns = [''id1'', ''id2''],
        onDelete = ''RESTRICT'', onUpdate = ''CASCADE''\<rparr>]
   \<and> SQLiteClient_introspectForeignKeys ''orders''
     [\<lparr>fkl_id = 0, fkl_seq = 0, fkl_table = ''users'', fkl_from = ''user_id'', fkl_to = ''id'',
       fkl_on_update = ''NO ACTION'', fkl_on_delete = ''CASCADE'', fkl_match = ''NONE''\<rparr>]
   = [\<lparr>fk_name = ''fk_orders_0'', fk_columns = [''user_id''], referencedTable = ''users'',
        referencedSchema = ''main'', referencedColumns = [''id''],
        onDelete = ''CASCADE'', onUpdate = ''NO ACTION''\<rparr>]
   \<and> PostgreSQLClient_introspectForeignKeys
     [\<lparr>constraint_name = ''fk_b'', column_name = ''x'', foreign_table_schema = ''public'',
       foreign_table_name = ''t'', foreign_column_name = ''id'',
       update_rule = ''NO ACTION'', delete_rule = ''NO ACTION''\<rparr>]
   = [\<lparr>fk_name = ''fk_b'', fk_columns = [''x''], referencedTable = ''t'',
        referencedSchema = ''public'', referencedColumns = [''id''],
        onDelete = ''NO ACTION'', onUpdate = ''NO ACTION''\<rparr>]
   \<and> length [''x'', ''y''] = length [''id1'', ''id2'']"
  using foreign_key_cardinality
    [of "[\<lparr>CONSTRAINT_NAME = ''fk_a'', kcu_COLUMN_NAME = ''x'', REFERENCED_TABLE_SCHEMA = ''shop'',
       REFERENCED_TABLE_NAME = ''t'', REFERENCED_COLUMN_NAME = ''id1'',
       UPDATE_RULE = ''CASCADE'', DELETE_RULE = ''RESTRICT''\<rparr>,
      \<lparr>CONSTRAINT_NAME = ''fk_a'', kcu_COLUMN_NAME = ''y'', REFERENCED_TABLE_SCHEMA = ''shop'',
       REFERENCED_TABLE_NAME = ''t'', REFERENCED_COLUMN_NAME = ''id2'',
       UPDATE_RULE = ''CASCADE'', DELETE_RULE = ''RESTRICT''\<rparr>]"
     "''orders''"
     "[\<lparr>fkl_id = 0, fkl_seq = 0, fkl_table = ''users'', fkl_from = ''user_id'', fkl_to = ''id'',
       fkl_on_update = ''NO ACTION'', fkl_on_delete = ''CASCADE'', fkl_match = ''NONE''\<rparr>]"
     "[\<lparr>constraint_name = ''fk_b'', column_name = ''x'', foreign_table_schema = ''public'',
       foreign_table_name = ''t'', foreign_column_name = ''id'',
       update_rule = ''NO ACTION'', delete_rule = ''NO ACTION''\<rparr>]"]
  by (simp add: MySQLClient_introspectForeignKeys_def SQLiteClient_introspectForeignKeys_def
      PostgreSQLClient_introspectForeignKeys_def Map_values_def mysql_fkMap_step_def
      sqlite_fkMap_step_def pg_fkMap_step_def fk_push_def Map_has_def Map_get_def
      numberToString_def mysql_newForeignKey_def sqlite_newForeignKey_def pg_newForeignKey_def)

section \<open>Grouping and the order of the catalog rows\<close>

lemma keys_Map_set_set: "set (map fst (Map_set m k v)) = insert k (set (map fst m))"
  by (auto simp: keys_Map_set)

lemma distinct_keys_Map_set:
  "distinct (map fst m) \<Longrightarrow> distinct (map fst (Map_set m k v))"
  by (simp add: keys_Map_set)

lemma map_of_keys: "(map_of m k \<noteq> None) = (k \<in> set (map fst m))"
  by (simp add: map_of_eq_None_iff)

subsection \<open>Indexes\<close>

lemma indexMap_step_lookup:
  "map_of (indexMap_step m r) k =
     (if k = INDEX_NAME r then
        (let ix = (case map_of m k of Some ix \<Rightarrow> ix | None \<Rightarrow> newIndex r)
         in Some (ix\<lparr>idx_columns := idx_columns ix @ [indexColumn r]\<rparr>))
      else map_of m k)"
  by (cases "map_of m (INDEX_NAME r)")
     (simp_all add: indexMap_step_def Let_def Map_has_def Map_get_def map_of_Map_set)

lemma indexMap_step_keys:
  "set (map fst (indexMap_step m r)) = insert (INDEX_NAME r) (set (map fst m))"
proof (cases "map_of m (INDEX_NAME r)")
  case None
  then show ?thesis
    by (simp add: indexMap_step_def Let_def Map_has_def Map_get_def map_of_Map_set
        keys_Map_set_set del: set_map)
next
  case (Some ix)
  then have "INDEX_NAME r \<in> set (map fst m)" using map_of_keys [of m "INDEX_NAME r"] by simp
  with Some show ?thesis
    by (auto simp add: indexMap_step_def Let_def Map_has_def Map_get_def
        keys_Map_set_set simp del: set_map)
qed

lemma indexMap_step_distinct:
  "distinct (map fst m) \<Longrightarrow> distinct (map fst (indexMap_step m r))"
  by (cases "map_of m (INDEX_NAME r)")
     (simp_all add: indexMap_step_def Let_def Map_has_def Map_get_def map_of_Map_set
        distinct_keys_Map_set)

lemma indexMap_step_named:
  assumes "\<And>k ix. map_of m k = Some ix \<Longrightarrow> idx_name ix = k"
    and "map_of (indexMap_step m r) k = Some ix"
  shows "idx_name ix = k"
proof (cases "k = INDEX_NAME r")
  case False
  with assms show ?thesis by (simp add: indexMap_step_lookup)
next
  case True
  show ?thesis
  proof (cases "map_of m k")
    case None
    with True assms(2) show ?thesis
      by (auto simp: indexMap_step_lookup newIndex_def)
  next
    case (Some ix0)
    then have "idx_name ix0 = k" by (rule assms(1))
    with True Some assms(2) show ?thesis
      by (auto simp: indexMap_step_lookup)
  qed
qed

lemma index_fold_distinct:
  "distinct (map fst m) \<Longrightarrow> distinct (map fst (foldl indexMap_step m rs))"
  by (induction rs arbitrary: m) (simp_all add: indexMap_step_distinct)

lemma index_fold_keys:
  "set (map fst (foldl indexMap_step m rs)) = set (map fst m) \<union> INDEX_NAME ` set rs"
  by (induction rs arbitrary: m) (simp_all add: indexMap_step_keys del: set_map)

lemma index_fold_named:
  assumes "\<And>k ix. map_of m k = Some ix \<Longrightarrow> idx_name ix = k"
    and "map_of (foldl indexMap_step m rs) k = Some ix"
  shows "idx_name ix = k"
  using assms
proof (induction rs arbitrary: m)
  case Nil
  then show ?case by simp
next
  case (Cons r rs)
  show ?case
  proof (rule Cons.IH [of "indexMap_step m r"])
    show "\<And>k ix. map_of (indexMap_step m r) k = Some ix \<Longrightarrow> idx_name ix = k"
      using Cons.prems(1) by (rule indexMap_step_named)
    show "map_of (foldl indexMap_step (indexMap_step m r) rs) k = Some ix"
      using Cons.prems(2) by simp
  qed
qed

lemma index_fold_columns:
  "map_of (foldl indexMap_step m rs) k = Some ix \<Longrightarrow>
   idx_columns ix =
     (case map_of m k of Some ix0 \<Rightarrow> idx_columns ix0 | None \<Rightarrow> [])
       @ map indexColumn (filter (\<lambda>r. INDEX_NAME r = k) rs)"
proof (induction rs arbitrary: m)
  case Nil
  then show ?case by simp
next
  case (Cons r rs)
  from Cons.prems have "map_of (foldl indexMap_step (indexMap_step m r) rs) k = Some ix"
    by simp
  then have ih: "idx_columns ix =
     (case map_of (indexMap_step m r) k of Some ix0 \<Rightarrow> idx_columns ix0 | None \<Rightarrow> [])
       @ map indexColumn (filter (\<lambda>r. INDEX_NAME r = k) rs)"
    by (rule Cons.IH)
  show ?case
  proof (cases "k = INDEX_NAME r")
    case False
    with ih show ?thesis by (simp add: indexMap_step_lookup)
  next
    case True
    with ih show ?thesis
      by (cases "map_of m k") (simp_all add: indexMap_step_lookup newIndex_def)
  qed
qed

lemma introspectIndexes_entry:
  assumes "ix \<in> set (MySQLClient_introspectIndexes rs)"
  shows "map_of (foldl indexMap_step [] rs) (idx_name ix) = Some ix"
proof -
  from assms obtain k where k: "(k, ix) \<in> set (foldl indexMap_step [] rs)"
    by (auto simp: MySQLClient_introspectIndexes_def Map_values_def)
  have "distinct (map fst (foldl indexMap_step [] rs))"
    by (rule index_fold_distinct) simp
  with k have m: "map_of (foldl indexMap_step [] rs) k = Some ix" by simp
  then have "idx_name ix = k" by (rule index_fold_named [rotated]) simp
  with m show ?thesis by simp
qed

lemma introspectIndexes_columns:
  assumes "ix \<in> set (MySQLClient_introspectIndexes rs)"
  shows "idx_columns ix = map indexColumn (filter (\<lambda>r. INDEX_NAME r = idx_name ix) rs)"
  using index_fold_columns [OF introspectIndexes_entry [OF assms]] by simp

lemma introspectIndexes_names:
  "map idx_name (MySQLClient_introspectIndexes rs) = map fst (foldl indexMap_step [] rs)"
proof -
  have "idx_name (snd p) = fst p" if "p \<in> set (foldl indexMap_step [] rs)" for p
  proof -
    have "distinct (map fst (foldl indexMap_step [] rs))"
      by (rule index_fold_distinct) simp
    with that have "map_of (foldl indexMap_step [] rs) (fst p) = Some (snd p)" by simp
    then show ?thesis by (rule index_fold_named [rotated]) simp
  qed
  then show ?thesis by (simp add: MySQLClient_introspectIndexes_def Map_values_def)
qed

lemma introspectIndexes_distinct: "distinct (map idx_name (MySQLClient_introspectIndexes rs))"
  unfolding introspectIndexes_names by (rule index_fold_distinct) simp

lemma introspectIndexes_name_set:
  "set (map idx_name (MySQLClient_introspectIndexes rs)) = INDEX_NAME ` set rs"
  unfolding introspectIndexes_names by (simp add: index_fold_keys del: set_map)

subsection \<open>Foreign keys\<close>

lemma mysql_fkMap_step_lookup:
  "map_of (mysql_fkMap_step m r) k =
     (if k = CONSTRAINT_NAME r then
        (let fk = (case map_of m k of Some fk \<Rightarrow> fk | None \<Rightarrow> mysql_newForeignKey r)
         in Some (fk\<lparr>fk_columns := fk_columns fk @ [kcu_COLUMN_NAME r],
                     referencedColumns := referencedColumns fk @ [REFERENCED_COLUMN_NAME r]\<rparr>))
      else map_of m k)"
  by (cases "map_of m (CONSTRAINT_NAME r)")
     (simp_all add: mysql_fkMap_step_def fk_push_def Let_def Map_has_def Map_get_def
        map_of_Map_set)

lemma mysql_fkMap_step_keys:
  "set (map fst (mysql_fkMap_step m r)) = insert (CONSTRAINT_NAME r) (set (map fst m))"
proof (cases "map_of m (CONSTRAINT_NAME r)")
  case None
  then show ?thesis
    by (simp add: mysql_fkMap_step_def fk_push_def Let_def Map_has_def Map_get_def
        map_of_Map_set keys_Map_set_set del: set_map)
next
  case (Some fk)
  then have "CONSTRAINT_NAME r \<in> set (map fst m)"
    using map_of_keys [of m "CONSTRAINT_NAME r"] by simp
  with Some show ?thesis
    by (auto simp add: mysql_fkMap_step_def fk_push_def Let_def Map_has_def Map_get_def
        keys_Map_set_set simp del: set_map)
qed

lemma mysql_fkMap_step_distinct:
  "distinct (map fst m) \<Longrightarrow> distinct (map fst (mysql_fkMap_step m r))"
  by (cases "map_of m (CONSTRAINT_NAME r)")
     (simp_all add: mysql_fkMap_step_def fk_push_def Let_def Map_has_def Map_get_def
        map_of_Map_set distinct_keys_Map_set)

lemma mysql_fkMap_step_named:
  assumes "\<And>k fk. map_of m k = Some fk \<Longrightarrow> fk_name fk = k"
    and "map_of (mysql_fkMap_step m r) k = Some fk"
  shows "fk_name fk = k"
proof (cases "k = CONSTRAINT_NAME r")
  case False
  with assms show ?thesis by (simp add: mysql_fkMap_step_lookup)
next
  case True
  show ?thesis
  proof (cases "map_of m k")
    case None
    with True assms(2) show ?thesis
      by (auto simp: mysql_fkMap_step_lookup mysql_newForeignKey_def)
  next
    case (Some fk0)
    then have "fk_name fk0 = k" by (rule assms(1))
    with True Some assms(2) show ?thesis
      by (auto simp: mysql_fkMap_step_lookup)
  qed
qed

lemma fk_fold_distinct:
  "distinct (map fst m) \<Longrightarrow> distinct (map fst (foldl mysql_fkMap_step m rs))"
  by (induction rs arbitrary: m) (simp_all add: mysql_fkMap_step_distinct)

lemma fk_fold_keys:
  "set (map fst (foldl mysql_fkMap_step m rs)) = set (map fst m) \<union> CONSTRAINT_NAME ` set rs"
  by (induction rs arbitrary: m) (simp_all add: mysql_fkMap_step_keys del: set_map)

lemma fk_fold_named:
  assumes "\<And>k fk. map_of m k = Some fk \<Longrightarrow> fk_name fk = k"
    and "map_of (foldl mysql_fkMap_step m rs) k = Some fk"
  shows "fk_name fk = k"
  using assms
proof (induction rs arbitrary: m)
  case Nil
  then show ?case by simp
next
  case (Cons r rs)
  show ?case
  proof (rule Cons.IH [of "mysql_fkMap_step m r"])
    show "\<And>k fk. map_of (mysql_fkMap_step m r) k = Some fk \<Longrightarrow> fk_name fk = k"
      using Cons.prems(1) by (rule mysql_fkMap_step_named)
    show "map_of (foldl mysql_fkMap_step (mysql_fkMap_step m r) rs) k = Some fk"
      using Cons.prems(2) by simp
  qed
qed

lemma fk_fold_columns:
  "map_of (foldl mysql_fkMap_step m rs) k = Some fk \<Longrightarrow>
   fk_columns fk =
     (case map_of m k of Some fk0 \<Rightarrow> fk_columns fk0 | None \<Rightarrow> [])
       @ map kcu_COLUMN_NAME (filter (\<lambda>r. CONSTRAINT_NAME r = k) rs)
   \<and> referencedColumns fk =
     (case map_of m k of Some fk0 \<Rightarrow> referencedColumns fk0 | None \<Rightarrow> [])
       @ map REFERENCED_COLUMN_NAME (filter (\<lambda>r. CONSTRAINT_NAME r = k) rs)"
proof (induction rs arbitrary: m)
  case Nil
  then show ?case by simp
next
  case (Cons r rs)
  from Cons.prems have "map_of (foldl mysql_fkMap_step (mysql_fkMap_step m r) rs) k = Some fk"
    by simp
  then have ih: "fk_columns fk =
     (case map_of (mysql_fkMap_step m r) k of Some fk0 \<Rightarrow> fk_columns fk0 | None \<Rightarrow> [])
       @ map kcu_COLUMN_NAME (filter (\<lambda>r. CONSTRAINT_NAME r = k) rs)
   \<and> referencedColumns fk =
     (case map_of (mysql_fkMap_step m r) k of Some fk0 \<Rightarrow> referencedColumns fk0 | None \<Rightarrow> [])
       @ map REFERENCED_COLUMN_NAME (filter (\<lambda>r. CONSTRAINT_NAME r = k) rs)"
    by (rule Cons.IH)
  show ?case
  proof (cases "k = CONSTRAINT_NAME r")
    case False
    with ih show ?thesis by (simp add: mysql_fkMap_step_lookup)
  next
    case True
    with ih show ?thesis
      by (cases "map_of m k") (simp_all add: mysql_fkMap_step_lookup mysql_newForeignKey_def)
  qed
qed

lemma introspectForeignKeys_entry:
  assumes "fk \<in> set (MySQLClient_introspectForeignKeys rs)"
  shows "map_of (foldl mysql_fkMap_step [] rs) (fk_name fk) = Some fk"
proof -
  from assms obtain k where k: "(k, fk) \<in> set (foldl mysql_fkMap_step [] rs)"
    by (auto simp: MySQLClient_introspectForeignKeys_def Map_values_def)
  have "distinct (map fst (foldl mysql_fkMap_step [] rs))"
    by (rule fk_fold_distinct) simp
  with k have m: "map_of (foldl mysql_fkMap_step [] rs) k = Some fk" by simp
  then have "fk_name fk = k" by (rule fk_fold_named [rotated]) simp
  with m show ?thesis by simp
qed

lemma introspectForeignKeys_columns:
  assumes "fk \<in> set (MySQLClient_introspectForeignKeys rs)"
  shows "fk_columns fk = map kcu_COLUMN_NAME (filter (\<lambda>r. CONSTRAINT_NAME r = fk_name fk) rs)
    \<and> referencedColumns fk
        = map REFERENCED_COLUMN_NAME (filter (\<lambda>r. CONSTRAINT_NAME r = fk_name fk) rs)"
  using fk_fold_columns [OF introspectForeignKeys_entry [OF assms]] by simp

lemma introspectForeignKeys_names:
  "map fk_name (MySQLClient_introspectForeignKeys rs) = map fst (foldl mysql_fkMap_step [] rs)"
proof -
  have "fk_name (snd p) = fst p" if "p \<in> set (foldl mysql_fkMap_step [] rs)" for p
  proof -
    have "distinct (map fst (foldl mysql_fkMap_step [] rs))"
      by (rule fk_fold_distinct) simp
    with that have "map_of (foldl mysql_fkMap_step [] rs) (fst p) = Some (snd p)" by simp
    then show ?thesis by (rule fk_fold_named [rotated]) simp
  qed
  then show ?thesis by (simp add: MySQLClient_introspectForeignKeys_def Map_values_def)
qed

lemma introspectForeignKeys_distinct:
  "distinct (map fk_name (MySQLClient_introspectForeignKeys rs))"
  unfolding introspectForeignKeys_names by (rule fk_fold_distinct) simp

lemma introspectForeignKeys_name_set:
  "set (map fk_name (MySQLClient_introspectForeignKeys rs)) = CONSTRAINT_NAME ` set rs"
  unfolding introspectForeignKeys_names by (simp add: fk_fold_keys del: set_map)

lemma zip_map_same: "zip (map f xs) (map g xs) = map (\<lambda>x. (f x, g x)) xs"
  by (induction xs) auto

lemma mset_map_filter_perm:
  "mset xs = mset ys \<Longrightarrow> mset (map f (filter P xs)) = mset (map f (filter P ys))"
  by (metis mset_filter mset_map)

text \<open>
  Claim C4, as the code has it. For every permutation of the catalog rows the grouping
  fold of the MySQL adapter produces the same set of indexes (of foreign keys), one per
  natural key, and every index (foreign key) has the same columns (pairs of local and
  referenced column) as a multiset. Within one index or foreign key the columns stand in
  the order in which its rows arrive: the fold does not sort, the order is the one of
  the statement's \<open>ORDER BY\<close>.
\<close>

theorem grouping_permutation:
  assumes "mset rs' = mset rs" and "mset ks' = mset ks"
  shows "set (map idx_name (MySQLClient_introspectIndexes rs'))
           = set (map idx_name (MySQLClient_introspectIndexes rs))
     \<and> distinct (map idx_name (MySQLClient_introspectIndexes rs))
     \<and> (\<forall>ix \<in> set (MySQLClient_introspectIndexes rs).
           idx_columns ix = map indexColumn (filter (\<lambda>r. INDEX_NAME r = idx_name ix) rs))
     \<and> (\<forall>ix \<in> set (MySQLClient_introspectIndexes rs).
         \<forall>ix' \<in> set (MySQLClient_introspectIndexes rs').
           idx_name ix' = idx_name ix \<longrightarrow> mset (idx_columns ix') = mset (idx_columns ix))
     \<and> set (map fk_name (MySQLClient_introspectForeignKeys ks'))
           = set (map fk_name (MySQLClient_introspectForeignKeys ks))
     \<and> distinct (map fk_name (MySQLClient_introspectForeignKeys ks))
     \<and> (\<forall>fk \<in> set (MySQLClient_introspectForeignKeys ks).
           zip (fk_columns fk) (referencedColumns fk)
             = map (\<lambda>r. (kcu_COLUMN_NAME r, REFERENCED_COLUMN_NAME r))
                 (filter (\<lambda>r. CONSTRAINT_NAME r = fk_name fk) ks))
     \<and> (\<forall>fk \<in> set (MySQLClient_introspectForeignKeys ks).
         \<forall>fk' \<in> set (MySQLClient_introspectForeignKeys ks').
           fk_name fk' = fk_name fk \<longrightarrow>
             mset (zip (fk_columns fk') (referencedColumns fk'))
               = mset (zip (fk_columns fk) (referencedColumns fk)))"
proof -
  from assms(1) have s1: "set rs' = set rs" by (rule mset_eq_setD)
  from assms(2) have s2: "set ks' = set ks" by (rule mset_eq_setD)
  have a: "set (map idx_name (MySQLClient_introspectIndexes rs'))
           = set (map idx_name (MySQLClient_introspectIndexes rs))"
    by (simp only: introspectIndexes_name_set s1)
  have b: "\<forall>ix \<in> set (MySQLClient_introspectIndexes rs).
           idx_columns ix = map indexColumn (filter (\<lambda>r. INDEX_NAME r = idx_name ix) rs)"
    by (simp add: introspectIndexes_columns)
  have c: "\<forall>ix \<in> set (MySQLClient_introspectIndexes rs).
         \<forall>ix' \<in> set (MySQLClient_introspectIndexes rs').
           idx_name ix' = idx_name ix \<longrightarrow> mset (idx_columns ix') = mset (idx_columns ix)"
  proof (intro ballI impI)
    fix ix ix'
    assume ix: "ix \<in> set (MySQLClient_introspectIndexes rs)"
      and ix': "ix' \<in> set (MySQLClient_introspectIndexes rs')"
      and n: "idx_name ix' = idx_name ix"
    have "mset (map indexColumn (filter (\<lambda>r. INDEX_NAME r = idx_name ix) rs'))
        = mset (map indexColumn (filter (\<lambda>r. INDEX_NAME r = idx_name ix) rs))"
      using assms(1) by (rule mset_map_filter_perm)
    then show "mset (idx_columns ix') = mset (idx_columns ix)"
      by (simp only: introspectIndexes_columns [OF ix] introspectIndexes_columns [OF ix'] n)
  qed
  have d: "set (map fk_name (MySQLClient_introspectForeignKeys ks'))
           = set (map fk_name (MySQLClient_introspectForeignKeys ks))"
    by (simp only: introspectForeignKeys_name_set s2)
  have z: "zip (fk_columns fk) (referencedColumns fk)
             = map (\<lambda>r. (kcu_COLUMN_NAME r, REFERENCED_COLUMN_NAME r))
                 (filter (\<lambda>r. CONSTRAINT_NAME r = fk_name fk) xs)"
    if "fk \<in> set (MySQLClient_introspectForeignKeys xs)" for fk xs
    using introspectForeignKeys_columns [OF that] by (simp add: zip_map_same)
  have e: "\<forall>fk \<in> set (MySQLClient_introspectForeignKeys ks).
           zip (fk_columns fk) (referencedColumns fk)
             = map (\<lambda>r. (kcu_COLUMN_NAME r, REFERENCED_COLUMN_NAME r))
                 (filter (\<lambda>r. CONSTRAINT_NAME r = fk_name fk) ks)"
    using z by blast
  have f: "\<forall>fk \<in> set (MySQLClient_introspectForeignKeys ks).
         \<forall>fk' \<in> set (MySQLClient_introspectForeignKeys ks').
           fk_name fk' = fk_name fk \<longrightarrow>
             mset (zip (fk_columns fk') (referencedColumns fk'))
               = mset (zip (fk_columns fk) (referencedColumns fk))"
  proof (intro ballI impI)
    fix fk fk'
    assume fk: "fk \<in> set (MySQLClient_introspectForeignKeys ks)"
      and fk': "fk' \<in> set (MySQLClient_introspectForeignKeys ks')"
      and n: "fk_name fk' = fk_name fk"
    have "mset (map (\<lambda>r. (kcu_COLUMN_NAME r, REFERENCED_COLUMN_NAME r))
                 (filter (\<lambda>r. CONSTRAINT_NAME r = fk_name fk) ks'))
        = mset (map (\<lambda>r. (kcu_COLUMN_NAME r, REFERENCED_COLUMN_NAME r))
                 (filter (\<lambda>r. CONSTRAINT_NAME r = fk_name fk) ks))"
      using assms(2) by (rule mset_map_filter_perm)
    then show "mset (zip (fk_columns fk') (referencedColumns fk'))
               = mset (zip (fk_columns fk) (referencedColumns fk))"
      by (simp only: z [OF fk] z [OF fk'] n)
  qed
  from a b c d e f introspectIndexes_distinct [of rs] introspectForeignKeys_distinct [of ks]
  show ?thesis by blast
qed

theorem grouping_permutation_witness:
  "mset [\<lparr>INDEX_NAME = ''idx_ab'', NON_UNIQUE = 1, COLUMN_NAME = ''b'', SEQ_IN_INDEX = 2,
           COLLATION = Some ''A'', INDEX_TYPE = ''BTREE'', is_primary = 0\<rparr>,
         \<lparr>INDEX_NAME = ''idx_ab'', NON_UNIQUE = 1, COLUMN_NAME = ''a'', SEQ_IN_INDEX = 1,
           COLLATION = Some ''A'', INDEX_TYPE = ''BTREE'', is_primary = 0\<rparr>]
     = mset [\<lparr>INDEX_NAME = ''idx_ab'', NON_UNIQUE = 1, COLUMN_NAME = ''a'', SEQ_IN_INDEX = 1,
           COLLATION = Some ''A'', INDEX_TYPE = ''BTREE'', is_primary = 0\<rparr>,
         \<lparr>INDEX_NAME = ''idx_ab'', NON_UNIQUE = 1, COLUMN_NAME = ''b'', SEQ_IN_INDEX = 2,
           COLLATION = Some ''A'', INDEX_TYPE = ''BTREE'', is_primary = 0\<rparr>]
   \<and> mset [\<lparr>CONSTRAINT_NAME = ''fk_a'', kcu_COLUMN_NAME = ''y'', REFERENCED_TABLE_SCHEMA = ''shop'',
             REFERENCED_TABLE_NAME = ''t'', REFERENCED_COLUMN_NAME = ''id2'',
             UPDATE_RULE = ''CASCADE'', DELETE_RULE = ''RESTRICT''\<rparr>,
           \<lparr>CONSTRAINT_NAME = ''fk_a'', kcu_COLUMN_NAME = ''x'', REFERENCED_TABLE_SCHEMA = ''shop'',
             REFERENCED_TABLE_NAME = ''t'', REFERENCED_COLUMN_NAME = ''id1'',
             UPDATE_RULE = ''CASCADE'', DELETE_RULE = ''RESTRICT''\<rparr>]
     = mset [\<lparr>CONSTRAINT_NAME = ''fk_a'', kcu_COLUMN_NAME = ''x'', REFERENCED_TABLE_SCHEMA = ''shop'',
             REFERENCED_TABLE_NAME = ''t'', REFERENCED_COLUMN_NAME = ''id1'',
             UPDATE_RULE = ''CASCADE'', DELETE_RULE = ''RESTRICT''\<rparr>,
           \<lparr>CONSTRAINT_NAME = ''fk_a'', kcu_COLUMN_NAME = ''y'', REFERENCED_TABLE_SCHEMA = ''shop'',
             REFERENCED_TABLE_NAME = ''t'', REFERENCED_COLUMN_NAME = ''id2'',
             UPDATE_RULE = ''CASCADE'', DELETE_RULE = ''RESTRICT''\<rparr>]
   \<and> MySQLClient_introspectIndexes
        [\<lparr>INDEX_NAME = ''idx_ab'', NON_UNIQUE = 1, COLUMN_NAME = ''a'', SEQ_IN_INDEX = 1,
           COLLATION = Some ''A'', INDEX_TYPE = ''BTREE'', is_primary = 0\<rparr>,
         \<lparr>INDEX_NAME = ''idx_ab'', NON_UNIQUE = 1, COLUMN_NAME = ''b'', SEQ_IN_INDEX = 2,
           COLLATION = Some ''A'', INDEX_TYPE = ''BTREE'', is_primary = 0\<rparr>]
      = [\<lparr>idx_name = ''idx_ab'',
          idx_columns = [\<lparr>col_name = ''a'', col_order = ASC\<rparr>, \<lparr>col_name = ''b'', col_order = ASC\<rparr>],
          isUnique = False, isPrimary = False, idx_type = ''BTREE''\<rparr>]
   \<and> MySQLClient_introspectIndexes
        [\<lparr>INDEX_NAME = ''idx_ab'', NON_UNIQUE = 1, COLUMN_NAME = ''b'', SEQ_IN_INDEX = 2,
           COLLATION = Some ''A'', INDEX_TYPE = ''BTREE'', is_primary = 0\<rparr>,
         \<lparr>INDEX_NAME = ''idx_ab'', NON_UNIQUE = 1, COLUMN_NAME = ''a'', SEQ_IN_INDEX = 1,
           COLLATION = Some ''A'', INDEX_TYPE = ''BTREE'', is_primary = 0\<rparr>]
      = [\<lparr>idx_name = ''idx_ab'',
          idx_columns = [\<lparr>col_name = ''b'', col_order = ASC\<rparr>, \<lparr>col_name = ''a'', col_order = ASC\<rparr>],
          isUnique = False, isPrimary = False, idx_type = ''BTREE''\<rparr>]
   \<and> mset [\<lparr>col_name = ''b'', col_order = ASC\<rparr>, \<lparr>col_name = ''a'', col_order = ASC\<rparr>]
       = mset [\<lparr>col_name = ''a'', col_order = ASC\<rparr>, \<lparr>col_name = ''b'', col_order = ASC\<rparr>]
   \<and> MySQLClient_introspectForeignKeys
        [\<lparr>CONSTRAINT_NAME = ''fk_a'', kcu_COLUMN_NAME = ''x'', REFERENCED_TABLE_SCHEMA = ''shop'',
          REFERENCED_TABLE_NAME = ''t'', REFERENCED_COLUMN_NAME = ''id1'',
          UPDATE_RULE = ''CASCADE'', DELETE_RULE = ''RESTRICT''\<rparr>,
         \<lparr>CONSTRAINT_NAME = ''fk_a'', kcu_COLUMN_NAME = ''y'', REFERENCED_TABLE_SCHEMA = ''shop'',
          REFERENCED_TABLE_NAME = ''t'', REFERENCED_COLUMN_NAME = ''id2'',
          UPDATE_RULE = ''CASCADE'', DELETE_RULE = ''RESTRICT''\<rparr>]
      = [\<lparr>fk_name = ''fk_a'', fk_columns = [''x'', ''y''], referencedTable = ''t'',
          referencedSchema = ''shop'', referencedColumns = [''id1'', ''id2''],
          onDelete = ''RESTRICT'', onUpdate = ''CASCADE''\<rparr>]
   \<and> MySQLClient_introspectForeignKeys
        [\<lparr>CONSTRAINT_NAME = ''fk_a'', kcu_COLUMN_NAME = ''y'', REFERENCED_TABLE_SCHEMA = ''shop'',
          REFERENCED_TABLE_NAME = ''t'', REFERENCED_COLUMN_NAME = ''id2'',
          UPDATE_RULE = ''CASCADE'', DELETE_RULE = ''RESTRICT''\<rparr>,
         \<lparr>CONSTRAINT_NAME = ''fk_a'', kcu_COLUMN_NAME = ''x'', REFERENCED_TABLE_SCHEMA = ''shop'',
          REFERENCED_TABLE_NAME = ''t'', REFERENCED_COLUMN_NAME = ''id1'',
          UPDATE_RULE = ''CASCADE'', DELETE_RULE = ''RESTRICT''\<rparr>]
      = [\<lparr>fk_name = ''fk_a'', fk_columns = [''y'', ''x''], referencedTable = ''t'',
          referencedSchema = ''shop'', referencedColumns = [''id2'', ''id1''],
          onDelete = ''RESTRICT'', onUpdate = ''CASCADE''\<rparr>]
   \<and> mset (zip [''y'', ''x''] [''id2'', ''id1'']) = mset (zip [''x'', ''y''] [''id1'', ''id2''])"
proof -
  let ?a = "\<lparr>INDEX_NAME = ''idx_ab'', NON_UNIQUE = 1, COLUMN_NAME = ''a'', SEQ_IN_INDEX = 1,
           COLLATION = Some ''A'', INDEX_TYPE = ''BTREE'', is_primary = 0\<rparr>"
  let ?b = "\<lparr>INDEX_NAME = ''idx_ab'', NON_UNIQUE = 1, COLUMN_NAME = ''b'', SEQ_IN_INDEX = 2,
           COLLATION = Some ''A'', INDEX_TYPE = ''BTREE'', is_primary = 0\<rparr>"
  let ?x = "\<lparr>CONSTRAINT_NAME = ''fk_a'', kcu_COLUMN_NAME = ''x'', REFERENCED_TABLE_SCHEMA = ''shop'',
          REFERENCED_TABLE_NAME = ''t'', REFERENCED_COLUMN_NAME = ''id1'',
          UPDATE_RULE = ''CASCADE'', DELETE_RULE = ''RESTRICT''\<rparr>"
  let ?y = "\<lparr>CONSTRAINT_NAME = ''fk_a'', kcu_COLUMN_NAME = ''y'', REFERENCED_TABLE_SCHEMA = ''shop'',
          REFERENCED_TABLE_NAME = ''t'', REFERENCED_COLUMN_NAME = ''id2'',
          UPDATE_RULE = ''CASCADE'', DELETE_RULE = ''RESTRICT''\<rparr>"
  have h1: "mset [?b, ?a] = mset [?a, ?b]" by simp
  have h2: "mset [?y, ?x] = mset [?x, ?y]" by simp
  have e1: "MySQLClient_introspectIndexes [?a, ?b]
      = [\<lparr>idx_name = ''idx_ab'',
          idx_columns = [\<lparr>col_name = ''a'', col_order = ASC\<rparr>, \<lparr>col_name = ''b'', col_order = ASC\<rparr>],
          isUnique = False, isPrimary = False, idx_type = ''BTREE''\<rparr>]"
    by (simp add: MySQLClient_introspectIndexes_def Map_values_def indexMap_step_def
        Map_has_def Map_get_def newIndex_def indexColumn_def)
  have e2: "MySQLClient_introspectIndexes [?b, ?a]
      = [\<lparr>idx_name = ''idx_ab'',
          idx_columns = [\<lparr>col_name = ''b'', col_order = ASC\<rparr>, \<lparr>col_name = ''a'', col_order = ASC\<rparr>],
          isUnique = False, isPrimary = False, idx_type = ''BTREE''\<rparr>]"
    by (simp add: MySQLClient_introspectIndexes_def Map_values_def indexMap_step_def
        Map_has_def Map_get_def newIndex_def indexColumn_def)
  have f1: "MySQLClient_introspectForeignKeys [?x, ?y]
      = [\<lparr>fk_name = ''fk_a'', fk_columns = [''x'', ''y''], referencedTable = ''t'',
          referencedSchema = ''shop'', referencedColumns = [''id1'', ''id2''],
          onDelete = ''RESTRICT'', onUpdate = ''CASCADE''\<rparr>]"
    by (simp add: MySQLClient_introspectForeignKeys_def Map_values_def mysql_fkMap_step_def
        fk_push_def Map_has_def Map_get_def mysql_newForeignKey_def)
  have f2: "MySQLClient_introspectForeignKeys [?y, ?x]
      = [\<lparr>fk_name = ''fk_a'', fk_columns = [''y'', ''x''], referencedTable = ''t'',
          referencedSchema = ''shop'', referencedColumns = [''id2'', ''id1''],
          onDelete = ''RESTRICT'', onUpdate = ''CASCADE''\<rparr>]"
    by (simp add: MySQLClient_introspectForeignKeys_def Map_values_def mysql_fkMap_step_def
        fk_push_def Map_has_def Map_get_def mysql_newForeignKey_def)
  note gp = grouping_permutation [OF h1 h2]
  from gp have "\<forall>ix \<in> set (MySQLClient_introspectIndexes [?a, ?b]).
         \<forall>ix' \<in> set (MySQLClient_introspectIndexes [?b, ?a]).
           idx_name ix' = idx_name ix \<longrightarrow> mset (idx_columns ix') = mset (idx_columns ix)"
    by blast
  then have g1: "mset [\<lparr>col_name = ''b'', col_order = ASC\<rparr>, \<lparr>col_name = ''a'', col_order = ASC\<rparr>]
       = mset [\<lparr>col_name = ''a'', col_order = ASC\<rparr>, \<lparr>col_name = ''b'', col_order = ASC\<rparr>]"
    unfolding e1 e2 by simp
  from gp have "\<forall>fk \<in> set (MySQLClient_introspectForeignKeys [?x, ?y]).
         \<forall>fk' \<in> set (MySQLClient_introspectForeignKeys [?y, ?x]).
           fk_name fk' = fk_name fk \<longrightarrow>
             mset (zip (fk_columns fk') (referencedColumns fk'))
               = mset (zip (fk_columns fk) (referencedColumns fk))"
    by blast
  then have g2: "mset (zip [''y'', ''x''] [''id2'', ''id1''])
      = mset (zip [''x'', ''y''] [''id1'', ''id2''])"
    unfolding f1 f2 by simp
  from h1 h2 e1 e2 f1 f2 g1 g2 show ?thesis by blast
qed

text \<open>Claim C4 as stated fails: swapping the two rows of a two-column index swaps the
  columns of the index that the fold produces.\<close>

theorem grouping_permutation_counterexample:
  "mset [\<lparr>INDEX_NAME = ''idx_ab'', NON_UNIQUE = 1, COLUMN_NAME = ''b'', SEQ_IN_INDEX = 2,
           COLLATION = Some ''A'', INDEX_TYPE = ''BTREE'', is_primary = 0\<rparr>,
         \<lparr>INDEX_NAME = ''idx_ab'', NON_UNIQUE = 1, COLUMN_NAME = ''a'', SEQ_IN_INDEX = 1,
           COLLATION = Some ''A'', INDEX_TYPE = ''BTREE'', is_primary = 0\<rparr>]
     = mset [\<lparr>INDEX_NAME = ''idx_ab'', NON_UNIQUE = 1, COLUMN_NAME = ''a'', SEQ_IN_INDEX = 1,
           COLLATION = Some ''A'', INDEX_TYPE = ''BTREE'', is_primary = 0\<rparr>,
         \<lparr>INDEX_NAME = ''idx_ab'', NON_UNIQUE = 1, COLUMN_NAME = ''b'', SEQ_IN_INDEX = 2,
           COLLATION = Some ''A'', INDEX_TYPE = ''BTREE'', is_primary = 0\<rparr>]
   \<and> MySQLClient_introspectIndexes
        [\<lparr>INDEX_NAME = ''idx_ab'', NON_UNIQUE = 1, COLUMN_NAME = ''b'', SEQ_IN_INDEX = 2,
           COLLATION = Some ''A'', INDEX_TYPE = ''BTREE'', is_primary = 0\<rparr>,
         \<lparr>INDEX_NAME = ''idx_ab'', NON_UNIQUE = 1, COLUMN_NAME = ''a'', SEQ_IN_INDEX = 1,
           COLLATION = Some ''A'', INDEX_TYPE = ''BTREE'', is_primary = 0\<rparr>]
     \<noteq> MySQLClient_introspectIndexes
        [\<lparr>INDEX_NAME = ''idx_ab'', NON_UNIQUE = 1, COLUMN_NAME = ''a'', SEQ_IN_INDEX = 1,
           COLLATION = Some ''A'', INDEX_TYPE = ''BTREE'', is_primary = 0\<rparr>,
         \<lparr>INDEX_NAME = ''idx_ab'', NON_UNIQUE = 1, COLUMN_NAME = ''b'', SEQ_IN_INDEX = 2,
           COLLATION = Some ''A'', INDEX_TYPE = ''BTREE'', is_primary = 0\<rparr>]"
  by (simp add: MySQLClient_introspectIndexes_def Map_values_def indexMap_step_def
        Map_has_def Map_get_def newIndex_def indexColumn_def)

section \<open>The query validator\<close>







text \<open>
  Claim C1 fails on the code. For \<open>DELETE FROM users\<close> the result is invalid, but it
  has two errors, not one: the dangerous-operation pattern \<open>DELETE ALL ROWS\<close> matches
  the query too, so a \<open>DANGEROUS_OPERATION\<close> error stands before the
  \<open>DELETE_WITHOUT_WHERE\<close> error. The theorem is the result the code computes.
\<close>

theorem validate_delete_from_users:
  "validate ''DELETE FROM users'' =
   \<lparr>isValid = False,
    errors =
      [\<lparr>code = ''DANGEROUS_OPERATION'',
        message = ''Dangerous operation detected: DELETE ALL ROWS'',
        severity = SevCritical,
        suggestion = ''Review this operation carefully before executing.''\<rparr>,
       \<lparr>code = ''DELETE_WITHOUT_WHERE'',
        message = ''DELETE statement without WHERE clause will remove all rows'',
        severity = SevCritical,
        suggestion = ''Add a WHERE clause to limit the deletion scope.''\<rparr>],
    warnings = [],
    metadata =
      \<lparr>queryType = DELETE, isMutation = True, tablesAccessed = [''users''],
       estimatedComplexity = Low, requiresConfirmation = True\<rparr>\<rparr>"
  by code_simp

text \<open>
  Claim C8. For \<open>UPDATE users SET active=false\<close> the result is valid, without errors,
  and has exactly one warning, with the code \<open>UPDATE_WITHOUT_WHERE\<close>.
\<close>

theorem validate_update_users:
  "validate ''UPDATE users SET active=false'' =
   \<lparr>isValid = True,
    errors = [],
    warnings =
      [\<lparr>code = ''UPDATE_WITHOUT_WHERE'',
        message = ''UPDATE statement without WHERE clause will modify all rows'',
        severity = SevWarning,
        suggestion = ''Add a WHERE clause to limit the update scope.''\<rparr>],
    metadata =
      \<lparr>queryType = UPDATE, isMutation = True, tablesAccessed = [''users''],
       estimatedComplexity = Low, requiresConfirmation = True\<rparr>\<rparr>"
  by code_simp




section \<open>The validator returns on every string\<close>

subsection \<open>The capturing group takes part in every match\<close>

lemma matchHereU_keeps_group:
  "x \<in> set (matchHereU r st) \<Longrightarrow> snd (snd st) \<noteq> None \<Longrightarrow> snd (snd x) \<noteq> None"
proof (induction r st arbitrary: x rule: matchHereU.induct)
  case (8 r rs st)
  from "8.prems"(1) obtain st' where st': "st' \<in> set (matchHereU r st)"
    and x: "x \<in> set (matchHereU (Cat rs) st')" by auto
  from st' "8.prems"(2) have "snd (snd st') \<noteq> None" by (rule "8.IH"(1))
  with st' x show ?case by (rule "8.IH"(2))
next
  case (10 r rs st)
  from "10.prems"(1) have "x \<in> set (matchHereU r st) \<or> x \<in> set (matchHereU (Or rs) st)"
    by simp
  then show ?case
  proof
    assume "x \<in> set (matchHereU r st)"
    then show ?thesis using "10.prems"(2) by (rule "10.IH"(1))
  next
    assume "x \<in> set (matchHereU (Or rs) st)"
    then show ?thesis using "10.prems"(2) by (rule "10.IH"(2))
  qed
qed (auto split: list.splits if_splits)

lemma matchHereU_Capture_group:
  "x \<in> set (matchHereU (Capture c) st) \<Longrightarrow> snd (snd x) \<noteq> None"
  by (cases st) auto

lemma matchHereU_Cat_group:
  "Capture c \<in> set rs \<Longrightarrow> x \<in> set (matchHereU (Cat rs) st) \<Longrightarrow> snd (snd x) \<noteq> None"
proof (induction rs arbitrary: st)
  case Nil
  then show ?case by simp
next
  case (Cons r rs)
  from Cons.prems(2) obtain st' where st': "st' \<in> set (matchHereU r st)"
    and x: "x \<in> set (matchHereU (Cat rs) st')" by auto
  show ?case
  proof (cases "r = Capture c")
    case True
    with st' have "st' \<in> set (matchHereU (Capture c) st)" by simp
    then have "snd (snd st') \<noteq> None" by (rule matchHereU_Capture_group)
    with x show ?thesis by (rule matchHereU_keeps_group)
  next
    case False
    with Cons.prems(1) have "Capture c \<in> set rs" by simp
    then show ?thesis using x by (rule Cons.IH)
  qed
qed

lemma head_in_set: "xs = y # ys \<Longrightarrow> y \<in> set xs"
  by simp

lemma RegExp_execU_group:
  "RegExp_execU (Cat rs) p s = Some x \<Longrightarrow> Capture c \<in> set rs \<Longrightarrow> snd (snd x) \<noteq> None"
proof (induction s arbitrary: p)
  case Nil
  note found = Nil.prems(1) and cap = Nil.prems(2)
  show ?case
  proof (cases "matchHereU (Cat rs) (p, [], None)")
    assume "matchHereU (Cat rs) (p, [], None) = []"
    with found show ?thesis by simp
  next
    fix y ys
    assume m: "matchHereU (Cat rs) (p, [], None) = y # ys"
    with found have "x = y" by simp
    with m have "x \<in> set (matchHereU (Cat rs) (p, [], None))" by simp
    with cap show ?thesis by (rule matchHereU_Cat_group)
  qed
next
  case (Cons a s)
  note found = Cons.prems(1) and cap = Cons.prems(2) and ih = Cons.IH
  show ?case
  proof (cases "matchHereU (Cat rs) (p, a # s, None)")
    assume "matchHereU (Cat rs) (p, a # s, None) = []"
    with found have "RegExp_execU (Cat rs) (Some a) s = Some x" by simp
    then show ?thesis using cap by (rule ih)
  next
    fix y ys
    assume m: "matchHereU (Cat rs) (p, a # s, None) = y # ys"
    with found have "x = y" by simp
    with m have "x \<in> set (matchHereU (Cat rs) (p, a # s, None))" by simp
    with cap show ?thesis by (rule matchHereU_Cat_group)
  qed
qed

lemma matchAllFromU_end_none:
  "matchHereU r (p, [], None) = [] \<Longrightarrow> matchAllFromU r skip p [] = []"
  by simp

lemma matchAllFromU_end_some:
  "matchHereU r (p, [], None) = y # ys \<Longrightarrow>
   matchAllFromU r skip p [] = (if skip = 0 then [y] else [])"
  by simp

lemma matchAllFromU_group:
  "x \<in> set (matchAllFromU (Cat rs) skip p s) \<Longrightarrow> Capture c \<in> set rs \<Longrightarrow> snd (snd x) \<noteq> None"
proof (induction s arbitrary: skip p)
  case Nil
  note found = Nil.prems(1) and cap = Nil.prems(2)
  show ?case
  proof (cases "matchHereU (Cat rs) (p, [], None)")
    assume m: "matchHereU (Cat rs) (p, [], None) = []"
    from found [unfolded matchAllFromU_end_none [OF m]] show ?thesis by simp
  next
    fix y ys
    assume m: "matchHereU (Cat rs) (p, [], None) = y # ys"
    from found [unfolded matchAllFromU_end_some [OF m]] have "x = y"
      by (cases "skip = 0") simp_all
    with m have "x \<in> set (matchHereU (Cat rs) (p, [], None))" by simp
    with cap show ?thesis by (rule matchHereU_Cat_group)
  qed
next
  case (Cons a s)
  note found = Cons.prems(1) and cap = Cons.prems(2) and ih = Cons.IH
  show ?case
  proof (cases "skip > 0")
    case True
    with found have "x \<in> set (matchAllFromU (Cat rs) (skip - 1) (Some a) s)" by simp
    then show ?thesis using cap by (rule ih)
  next
    case False
    show ?thesis
    proof (cases "matchHereU (Cat rs) (p, a # s, None)")
      assume m: "matchHereU (Cat rs) (p, a # s, None) = []"
      with False found have "x \<in> set (matchAllFromU (Cat rs) 0 (Some a) s)" by simp
      then show ?thesis using cap by (rule ih)
    next
      fix y ys
      assume m: "matchHereU (Cat rs) (p, a # s, None) = y # ys"
      obtain p' s' g where y: "y = (p', s', g)" by (cases y)
      from False m y found
      have "x = y \<or> x \<in> set (matchAllFromU (Cat rs) (length (a # s) - length s' - 1) (Some a) s)"
        by auto
      then show ?thesis
      proof
        assume "x = y"
        with m have "x \<in> set (matchHereU (Cat rs) (p, a # s, None))" by simp
        with cap show ?thesis by (rule matchHereU_Cat_group)
      next
        assume "x \<in> set (matchAllFromU (Cat rs) (length (a # s) - length s' - 1) (Some a) s)"
        then show ?thesis using cap by (rule ih)
      qed
    qed
  qed
qed

lemma hasCartesianProductU_returns: "\<exists>b. hasCartesianProductU q = Inr b"
proof (cases "RegExp_execU fromClausePattern None q")
  case None
  then have "hasCartesianProductU q = Inr False" by (simp add: hasCartesianProductU_def)
  then show ?thesis by (rule exI)
next
  case (Some x)
  obtain p s g where x: "x = (p, s, g)" by (cases x)
  have "snd (snd x) \<noteq> None"
    using Some unfolding fromClausePattern_def
    by (rule RegExp_execU_group [where c = "Many1 (OneOf [WordCh, Ch CHR '','', Space])"]) simp
  with x obtain t where "g = Some t" by auto
  with Some x have "hasCartesianProductU q
      = Inr (length (map trimU (split 0x2C t)) > 1 \<and> \<not> includesStr q (units ''JOIN''))"
    by (simp add: hasCartesianProductU_def Let_def)
  then show ?thesis by (rule exI)
qed

lemma set_foldl_Set_add: "set (foldl Set_add acc xs) = set acc \<union> set xs"
  by (induction xs arbitrary: acc) (auto simp: Set_add_def)

lemma distinct_foldl_Set_add: "distinct acc \<Longrightarrow> distinct (foldl Set_add acc xs)"
  by (induction xs arbitrary: acc) (auto simp: Set_add_def)

lemma tableNamePatterns_capture:
  "pattern \<in> set tableNamePatterns \<Longrightarrow> \<exists>rs c. pattern = Cat rs \<and> Capture c \<in> set rs"
proof -
  assume "pattern \<in> set tableNamePatterns"
  then consider
      "pattern = Cat [str ''FROM'', Many1 (Cls Space), Capture (Many1 (OneOf [WordCh, Ch CHR ''.'']))]"
    | "pattern = Cat [str ''JOIN'', Many1 (Cls Space), Capture (Many1 (OneOf [WordCh, Ch CHR ''.'']))]"
    | "pattern = Cat [str ''INSERT'', Many1 (Cls Space), str ''INTO'', Many1 (Cls Space),
           Capture (Many1 (OneOf [WordCh, Ch CHR ''.'']))]"
    | "pattern = Cat [str ''UPDATE'', Many1 (Cls Space), Capture (Many1 (OneOf [WordCh, Ch CHR ''.'']))]"
    | "pattern = Cat [str ''DELETE'', Many1 (Cls Space), str ''FROM'', Many1 (Cls Space),
           Capture (Many1 (OneOf [WordCh, Ch CHR ''.'']))]"
    unfolding tableNamePatterns_def by fastforce
  then show ?thesis
  proof cases
    case 1
    have "Capture (Many1 (OneOf [WordCh, Ch CHR ''.'']))
      \<in> set [str ''FROM'', Many1 (Cls Space), Capture (Many1 (OneOf [WordCh, Ch CHR ''.'']))]"
      by simp
    with 1 show ?thesis by blast
  next
    case 2
    have "Capture (Many1 (OneOf [WordCh, Ch CHR ''.'']))
      \<in> set [str ''JOIN'', Many1 (Cls Space), Capture (Many1 (OneOf [WordCh, Ch CHR ''.'']))]"
      by simp
    with 2 show ?thesis by blast
  next
    case 3
    have "Capture (Many1 (OneOf [WordCh, Ch CHR ''.'']))
      \<in> set [str ''INSERT'', Many1 (Cls Space), str ''INTO'', Many1 (Cls Space),
           Capture (Many1 (OneOf [WordCh, Ch CHR ''.'']))]"
      by simp
    with 3 show ?thesis by blast
  next
    case 4
    have "Capture (Many1 (OneOf [WordCh, Ch CHR ''.'']))
      \<in> set [str ''UPDATE'', Many1 (Cls Space), Capture (Many1 (OneOf [WordCh, Ch CHR ''.'']))]"
      by simp
    with 4 show ?thesis by blast
  next
    case 5
    have "Capture (Many1 (OneOf [WordCh, Ch CHR ''.'']))
      \<in> set [str ''DELETE'', Many1 (Cls Space), str ''FROM'', Many1 (Cls Space),
           Capture (Many1 (OneOf [WordCh, Ch CHR ''.'']))]"
      by simp
    with 5 show ?thesis by blast
  qed
qed

lemma extractTableNamesU_defined: "t \<in> set (extractTableNamesU q) \<Longrightarrow> t \<noteq> None"
proof -
  assume "t \<in> set (extractTableNamesU q)"
  then obtain pattern x where pat: "pattern \<in> set tableNamePatterns"
    and x: "x \<in> set (String_matchAllU pattern q)" and t: "t = snd (snd x)"
    by (auto simp: extractTableNamesU_def set_foldl_Set_add)
  from pat obtain rs c where "pattern = Cat rs" and "Capture c \<in> set rs"
    using tableNamePatterns_capture by blast
  with x have "snd (snd x) \<noteq> None"
    unfolding String_matchAllU_def using matchAllFromU_group by blast
  with t show ?thesis by simp
qed

lemma extractTableNamesU_distinct: "distinct (extractTableNamesU q)"
  unfolding extractTableNamesU_def by (rule distinct_foldl_Set_add) simp

lemma detectInjectionPatternsU_severity:
  "w \<in> set (detectInjectionPatternsU q) \<Longrightarrow> severity w = SevWarning"
  by (auto simp: detectInjectionPatternsU_def)

subsection \<open>The result of validate\<close>

lemma validateU_returns: "validateU upper q = Inr (projr (validateU upper q))"
proof -
  obtain b where b: "hasCartesianProductU (upper (trimU q)) = Inr b"
    using hasCartesianProductU_returns by blast
  then obtain r where "validateU upper q = Inr r"
    by (simp add: validateU_def Let_def)
  then show ?thesis by simp
qed

lemma validateU_errors_critical:
  assumes "hasCartesianProductU (upper (trimU q)) = Inr b"
    and "e \<in> set (errors (projr (validateU upper q)))"
  shows "severity e = SevCritical"
  using assms(2) by (auto simp: validateU_def Let_def assms(1) split: if_splits)

lemma validateU_warnings_severity:
  assumes "hasCartesianProductU (upper (trimU q)) = Inr b"
    and "w \<in> set (warnings (projr (validateU upper q)))"
  shows "severity w = SevWarning \<or> severity w = SevInfo"
  using assms(2)
  by (auto simp: validateU_def Let_def assms(1) dest: detectInjectionPatternsU_severity
      split: if_splits)

lemma validateU_fields:
  assumes "hasCartesianProductU (upper (trimU q)) = Inr b"
  shows "isValid (projr (validateU upper q)) = (errors (projr (validateU upper q)) = [])"
    and "queryType (metadata (projr (validateU upper q))) = detectQueryTypeU upper q"
    and "isMutation (metadata (projr (validateU upper q)))
          = isMutationQuery (detectQueryTypeU upper q)"
    and "tablesAccessed (metadata (projr (validateU upper q))) = extractTableNamesU q"
    and "estimatedComplexity (metadata (projr (validateU upper q)))
          = estimateComplexityU (upper (trimU q))"
    and "requiresConfirmation (metadata (projr (validateU upper q)))
          = (isMutation (metadata (projr (validateU upper q)))
             \<or> errors (projr (validateU upper q)) \<noteq> [])"
  by (simp_all add: validateU_def Let_def assms)

text \<open>
  Claim C6. On every JavaScript string, that is on every list of code units and whatever
  \<open>toUpperCase\<close> makes of it, \<open>validate\<close> returns a result and does not throw:
  the one statement that can throw, \<open>fromMatch[1].split(',')\<close>, never meets an
  \<open>undefined\<close> group, and the searches and loops run over the finite input. The
  result is complete: \<open>isValid\<close> says whether there are no errors, every error has
  the severity critical and every warning the severity warning or info, and the metadata
  carries the detected query type, the mutation flag, the complexity, the confirmation
  flag and the table names, none of them \<open>undefined\<close> and none twice.
\<close>

theorem validateU_total:
  "\<exists>es ws md.
     validateU upper q = Inr \<lparr>isValid = (es = []), errors = es, warnings = ws, metadata = md\<rparr>
     \<and> (\<forall>e \<in> set es. severity e = SevCritical)
     \<and> (\<forall>w \<in> set ws. severity w = SevWarning \<or> severity w = SevInfo)
     \<and> queryType md = detectQueryTypeU upper q
     \<and> isMutation md = isMutationQuery (detectQueryTypeU upper q)
     \<and> tablesAccessed md = extractTableNamesU q
     \<and> (\<forall>t \<in> set (tablesAccessed md). t \<noteq> None)
     \<and> distinct (tablesAccessed md)
     \<and> estimatedComplexity md = estimateComplexityU (upper (trimU q))
     \<and> requiresConfirmation md = (isMutation md \<or> es \<noteq> [])"
proof -
  let ?r = "projr (validateU upper q)"
  obtain b where b: "hasCartesianProductU (upper (trimU q)) = Inr b"
    using hasCartesianProductU_returns by blast
  note f = validateU_fields [where upper = upper and q = q, OF b]
  have "validateU upper q = Inr ?r" by (rule validateU_returns)
  also have "?r = \<lparr>isValid = (errors ?r = []), errors = errors ?r, warnings = warnings ?r,
      metadata = metadata ?r\<rparr>"
    using f(1) by (cases ?r) simp
  finally have r: "validateU upper q = Inr \<lparr>isValid = (errors ?r = []), errors = errors ?r,
      warnings = warnings ?r, metadata = metadata ?r\<rparr>" .
  have e: "\<forall>e \<in> set (errors ?r). severity e = SevCritical"
    using validateU_errors_critical [where upper = upper and q = q, OF b] by blast
  have w: "\<forall>w \<in> set (warnings ?r). severity w = SevWarning \<or> severity w = SevInfo"
    using validateU_warnings_severity [where upper = upper and q = q, OF b] by blast
  have td: "\<forall>t \<in> set (tablesAccessed (metadata ?r)). t \<noteq> None"
    unfolding f(4) using extractTableNamesU_defined by blast
  have di: "distinct (tablesAccessed (metadata ?r))"
    unfolding f(4) by (rule extractTableNamesU_distinct)
  from r e w f(2) f(3) f(4) td di f(5) f(6) show ?thesis by blast
qed

lemma validateU_sharp_s:
  "validateU upperSample (units ''; drop'' @ [0xDF]) =
     Inr \<lparr>isValid = True, errors = [], warnings = [],
          metadata =
            \<lparr>queryType = OTHER, isMutation = False, tablesAccessed = [],
             estimatedComplexity = Low, requiresConfirmation = False\<rparr>\<rparr>"
  by code_simp

lemma validateU_delete_from_users:
  "validateU upperSample (units ''DELETE FROM users'') =
     Inr \<lparr>isValid = False,
          errors =
            [\<lparr>code = ''DANGEROUS_OPERATION'',
              message = ''Dangerous operation detected: DELETE ALL ROWS'',
              severity = SevCritical,
              suggestion = ''Review this operation carefully before executing.''\<rparr>,
             \<lparr>code = ''DELETE_WITHOUT_WHERE'',
              message = ''DELETE statement without WHERE clause will remove all rows'',
              severity = SevCritical,
              suggestion = ''Add a WHERE clause to limit the deletion scope.''\<rparr>],
          warnings = [],
          metadata =
            \<lparr>queryType = DELETE, isMutation = True, tablesAccessed = [Some (units ''users'')],
             estimatedComplexity = Low, requiresConfirmation = True\<rparr>\<rparr>"
  by code_simp

lemma validateU_empty:
  "validateU upperSample [] =
     Inr \<lparr>isValid = True, errors = [], warnings = [],
          metadata =
            \<lparr>queryType = OTHER, isMutation = False, tablesAccessed = [],
             estimatedComplexity = Low, requiresConfirmation = False\<rparr>\<rparr>"
  by code_simp

theorem validateU_total_witness:
  "validateU upperSample (units ''; drop'' @ [0xDF]) =
     Inr \<lparr>isValid = True, errors = [], warnings = [],
          metadata =
            \<lparr>queryType = OTHER, isMutation = False, tablesAccessed = [],
             estimatedComplexity = Low, requiresConfirmation = False\<rparr>\<rparr>
   \<and> validateU upperSample (units ''DELETE FROM users'') =
     Inr \<lparr>isValid = False,
          errors =
            [\<lparr>code = ''DANGEROUS_OPERATION'',
              message = ''Dangerous operation detected: DELETE ALL ROWS'',
              severity = SevCritical,
              suggestion = ''Review this operation carefully before executing.''\<rparr>,
             \<lparr>code = ''DELETE_WITHOUT_WHERE'',
              message = ''DELETE statement without WHERE clause will remove all rows'',
              severity = SevCritical,
              suggestion = ''Add a WHERE clause to limit the deletion scope.''\<rparr>],
          warnings = [],
          metadata =
            \<lparr>queryType = DELETE, isMutation = True, tablesAccessed = [Some (units ''users'')],
             estimatedComplexity = Low, requiresConfirmation = True\<rparr>\<rparr>
   \<and> detectQueryTypeU upperSample (units ''DELETE FROM users'') = DELETE
   \<and> extractTableNamesU (units ''DELETE FROM users'') = [Some (units ''users'')]
   \<and> list_all (\<lambda>t. t \<noteq> None) (extractTableNamesU (units ''DELETE FROM users''))"
proof -
  from validateU_total [of upperSample "units ''DELETE FROM users''"]
  obtain es ws md where
    v: "validateU upperSample (units ''DELETE FROM users'')
          = Inr \<lparr>isValid = (es = []), errors = es, warnings = ws, metadata = md\<rparr>"
    and qt: "queryType md = detectQueryTypeU upperSample (units ''DELETE FROM users'')"
    and ta: "tablesAccessed md = extractTableNamesU (units ''DELETE FROM users'')"
    and td: "\<forall>t \<in> set (tablesAccessed md). t \<noteq> None"
    by blast
  from v have md: "md = \<lparr>queryType = DELETE, isMutation = True,
      tablesAccessed = [Some (units ''users'')],
      estimatedComplexity = Low, requiresConfirmation = True\<rparr>"
    by (simp add: validateU_delete_from_users)
  from md qt have a: "detectQueryTypeU upperSample (units ''DELETE FROM users'') = DELETE"
    by simp
  from md ta have b: "extractTableNamesU (units ''DELETE FROM users'') = [Some (units ''users'')]"
    by simp
  from td ta have c: "list_all (\<lambda>t. t \<noteq> None) (extractTableNamesU (units ''DELETE FROM users''))"
    by (simp add: list_all_iff)
  from validateU_sharp_s validateU_delete_from_users a b c show ?thesis by blast
qed

end
